theory Spec2Isabelle
  imports Complex_Main "HOL-Library.Sublist"
begin

section \<open>JavaScript values used by the extension\<close>

text \<open>
  Strings are lists of characters, a character being a code unit below 256; code units
  from 256 on have no counterpart here. The character classes are those of the regular
  expressions in the source: \<^verbatim>\<open>\s\<close> (tab, line feed, vertical tab, form feed,
  carriage return, space and the no-break space 160), \<^verbatim>\<open>\d\<close> and \<^verbatim>\<open>\w\<close> (ASCII
  digits, letters and the underscore). \<^verbatim>\<open>trim\<close> strips the same white space.

  Numbers that are only stored and compared (prices, scores) are reals; a value
  that may be \<^verbatim>\<open>NaN\<close>, \<^verbatim>\<open>null\<close> or \<^verbatim>\<open>undefined\<close> is an option, with \<open>None\<close>
  for all three, since the source only ever tests such a value for truthiness.
\<close>

definition code :: "char \<Rightarrow> nat" where
  "code c = of_char c"

definition is_ws :: "char \<Rightarrow> bool" where
  "is_ws c = (code c = 32 \<or> (9 \<le> code c \<and> code c \<le> 13) \<or> code c = 160)"

definition is_digit :: "char \<Rightarrow> bool" where
  "is_digit c = (48 \<le> code c \<and> code c \<le> 57)"

definition is_word :: "char \<Rightarrow> bool" where
  "is_word c = (is_digit c \<or> (65 \<le> code c \<and> code c \<le> 90)
                \<or> (97 \<le> code c \<and> code c \<le> 122) \<or> code c = 95)"

definition is_upper :: "char \<Rightarrow> bool" where
  "is_upper c = (65 \<le> code c \<and> code c \<le> 90)"

text \<open>
  \<^verbatim>\<open>String.prototype.toLowerCase\<close>: the letters A to Z, and the capital letters 192 to
  222 of Latin-1 (215 is the multiplication sign), move up by 32.
\<close>

definition lower_char :: "char \<Rightarrow> char" where
  "lower_char c =
     (if is_upper c \<or> (192 \<le> code c \<and> code c \<le> 222 \<and> code c \<noteq> 215)
      then char_of (code c + 32) else c)"

definition toLowerCase :: "string \<Rightarrow> string" where
  "toLowerCase s = map lower_char s"

text \<open>\<^verbatim>\<open>String.prototype.trim\<close>.\<close>

definition trim :: "string \<Rightarrow> string" where
  "trim s = rev (dropWhile is_ws (rev (dropWhile is_ws s)))"

text \<open>\<^verbatim>\<open>String.prototype.includes\<close>: \<open>sub\<close> occurs in \<open>s\<close> as a contiguous block.\<close>

fun includes_str :: "string \<Rightarrow> string \<Rightarrow> bool" where
  "includes_str [] sub = (sub = [])"
| "includes_str (c # cs) sub = (prefix sub (c # cs) \<or> includes_str cs sub)"

text \<open>
  \<^verbatim>\<open>s.split(/\s+/)\<close>: the pieces between maximal runs of white space. A run at the
  start or at the end leaves an empty piece there, and the empty string gives one
  empty piece.
\<close>

fun split_piece :: "string \<Rightarrow> string \<Rightarrow> string list"
  and split_gap :: "string \<Rightarrow> string list" where
  "split_piece cur [] = [cur]"
| "split_piece cur (c # cs) =
     (if is_ws c then cur # split_gap cs else split_piece (cur @ [c]) cs)"
| "split_gap [] = [[]]"
| "split_gap (c # cs) = (if is_ws c then split_gap cs else split_piece [c] cs)"

definition split_ws :: "string \<Rightarrow> string list" where
  "split_ws s = split_piece [] s"

text \<open>\<^verbatim>\<open>s.replace(/[^\w\s]/g, ' ')\<close>.\<close>

definition blank_punct :: "string \<Rightarrow> string" where
  "blank_punct s = map (\<lambda>c. if is_word c \<or> is_ws c then c else CHR '' '') s"

text \<open>\<^verbatim>\<open>s.replace(pat, rep)\<close> with a string pattern: the first occurrence only.\<close>

fun replace_first :: "string \<Rightarrow> string \<Rightarrow> string \<Rightarrow> string" where
  "replace_first pat rep [] = (if pat = [] then rep else [])"
| "replace_first pat rep (c # cs) =
     (if prefix pat (c # cs) then rep @ drop (length pat) (c # cs)
      else c # replace_first pat rep cs)"

text \<open>Truthiness of a string that may be absent, and \<^verbatim>\<open>a || b\<close> on such strings.\<close>

definition truthy :: "string option \<Rightarrow> bool" where
  "truthy v = (case v of None \<Rightarrow> False | Some s \<Rightarrow> s \<noteq> [])"

definition or_else :: "string option \<Rightarrow> string option \<Rightarrow> string option" where
  "or_else a b = (if truthy a then a else b)"

text \<open>Decimal rendering of a non-negative integer inside a template literal.\<close>

fun dec :: "nat \<Rightarrow> string" where
  "dec n = (if n < 10 then [''0123456789'' ! n]
            else dec (n div 10) @ [''0123456789'' ! (n mod 10)])"

declare dec.simps [simp del]

datatype js_error = TypeError | SyntaxError | NetworkFailure | Error string


section \<open>Listing schema\<close>

datatype condition = CNew | CRefurb | CUsed | CUnknown

text \<open>
  The fields of a Listing that the checked properties read. \<open>image_url\<close>,
  \<open>shipping\<close>, \<open>seller\<close>, \<open>signals\<close> and \<open>raw\<close> are left out, and with them the
  blocks of the parsers that only assign to them: those blocks read the page through
  optional chaining, cannot throw, and write to no other field.
\<close>

record price =
  pvalue :: "real option"
  currency :: string

record returns =
  available :: "bool option"
  window_days :: "nat option"
  unknown :: bool

record specs =
  brand :: "string option"
  model :: "string option"
  key_terms :: "string list"

record listing =
  lid :: string
  source :: string
  title :: "string option"
  url :: "string option"
  price :: "price option"
  condition :: condition
  returns :: returns
  specs :: specs


section \<open>Weights\<close>












text \<open>
  What the proofs below use of rounding to the nearest double: it fixes 0 and 1, is odd,
  monotone and idempotent; the sum of two doubles is rounded with a relative error of at
  most \<^verbatim>\<open>2^-53\<close> (a sum in the subnormal range is exact); any real is rounded with that
  relative error or, in the subnormal range, an absolute error of at most \<^verbatim>\<open>2^-1075\<close>.
  A real \<open>x\<close> is a double when \<open>rnd x = x\<close>.
\<close>

definition unit_roundoff :: real where
  "unit_roundoff = 1 / 2 ^ 53"




section \<open>Page view\<close>

text \<open>
  The read-only view of a page the parsers use. A \<open>node\<close> is an element returned by
  \<^verbatim>\<open>querySelector\<close>, of which the parsers read the text, attributes and IDL
  properties (\<^verbatim>\<open>href\<close>, \<^verbatim>\<open>alt\<close>, \<^verbatim>\<open>content\<close>; \<open>None\<close> where the element has no
  such property). An \<open>element\<close> is a result card, queried by selector.
\<close>

record node =
  textContent :: string
  getAttribute :: "string \<Rightarrow> string option"
  idl :: "string \<Rightarrow> string option"

record element =
  el_textContent :: string
  querySelector :: "string \<Rightarrow> node option"


text \<open>
  A JSON-LD script after \<^verbatim>\<open>JSON.parse\<close>. The shapes are those the product parser
  tells apart: \<^verbatim>\<open>@type\<close> a string or an array, \<^verbatim>\<open>brand\<close> a string or an object with
  a \<^verbatim>\<open>name\<close>, \<^verbatim>\<open>image\<close> a string, an array or an object, \<^verbatim>\<open>offers\<close> one offer or an
  array of offers.
\<close>

datatype ld_type = TypeAbsent | TypeString string | TypeArray "string list"

datatype brand_value = BrandString string | BrandObject "string option"

datatype image_value = ImageString string | ImageArray "string list" | ImageObject

record ld_offer =
  offer_price :: "string option"
  offer_priceCurrency :: "string option"
  offer_availability :: "string option"
  offer_itemCondition :: "string option"

datatype ld_offers = OneOffer ld_offer | OfferArray "ld_offer list"

record ld_rating =
  ratingValue :: "string option"
  reviewCount :: "string option"

record ld_product =
  ld_name :: "string option"
  ld_brand :: "brand_value option"
  ld_image :: "image_value option"
  ld_description :: "string option"
  ld_offers :: "ld_offers option"
  ld_aggregateRating :: "ld_rating option"

datatype ld_object =
  LdObject (at_type: ld_type) (at_fields: ld_product) (at_graph: "ld_object list option")

datatype ld_json = LdInvalid | LdSingle ld_object | LdArray "ld_object list"

record document =
  hostname :: string
  location_href :: string
  doc_title :: string
  querySelectorAll :: "string \<Rightarrow> element list"
  doc_querySelector :: "string \<Rightarrow> node option"
  ld_scripts :: "ld_json list"


section \<open>Price text\<close>

text \<open>
  The three price expressions \<^verbatim>\<open>/\$?([\d,]+)\.?(\d{0,2})/\<close>,
  \<^verbatim>\<open>/\$?([\d,]+\.?\d*)/\<close> and \<^verbatim>\<open>/\$?\s*([\d,]+\.?\d*)/\<close> all capture from the first
  digit or comma of the text: that character starts a match by itself, so the leftmost
  match starts at or before it, and before the group a match consumes only \<^verbatim>\<open>$\<close> and
  white space. The group is the maximal run of digits and commas, then an optional
  point, then digits. \<^verbatim>\<open>parseFloat\<close> is a parameter \<open>pf\<close> (\<open>None\<close> for \<^verbatim>\<open>NaN\<close>).
\<close>

definition is_dc :: "char \<Rightarrow> bool" where
  "is_dc c = (is_digit c \<or> c = CHR '','')"

definition strip_commas :: "string \<Rightarrow> string" where
  "strip_commas s = filter (\<lambda>c. c \<noteq> CHR '','') s"

definition after_point :: "string \<Rightarrow> string option" where
  "after_point t = (case t of [] \<Rightarrow> None | c # u \<Rightarrow> if c = CHR ''.'' then Some u else None)"

definition match_dollars_cents :: "string \<Rightarrow> (string \<times> string) option" where
  "match_dollars_cents s =
     (let r = dropWhile (\<lambda>c. \<not> is_dc c) s in
      if r = [] then None
      else (let t = dropWhile is_dc r;
                t' = (case after_point t of None \<Rightarrow> t | Some u \<Rightarrow> u)
            in Some (takeWhile is_dc r, take 2 (takeWhile is_digit t'))))"

definition match_amount :: "string \<Rightarrow> string option" where
  "match_amount s =
     (let r = dropWhile (\<lambda>c. \<not> is_dc c) s in
      if r = [] then None
      else (case after_point (dropWhile is_dc r) of
              None \<Rightarrow> Some (takeWhile is_dc r)
            | Some u \<Rightarrow> Some (takeWhile is_dc r @ ''.'' @ takeWhile is_digit u)))"


section \<open>Newegg search parser\<close>

text \<open>\<^verbatim>\<open>url.match(/\/p\/([^/?]+)/)\<close>: the item number after the first \<^verbatim>\<open>/p/\<close> that has one.\<close>

fun match_item_id :: "string \<Rightarrow> string option" where
  "match_item_id [] = None"
| "match_item_id (c # cs) =
     (let g = takeWhile (\<lambda>x. x \<noteq> CHR ''/'' \<and> x \<noteq> CHR ''?'') (drop 3 (c # cs)) in
      if prefix ''/p/'' (c # cs) \<and> g \<noteq> [] then Some g else match_item_id cs)"

definition newegg_empty :: "nat \<Rightarrow> nat \<Rightarrow> listing" where
  "newegg_empty now index =
     \<lparr> lid = ''newegg-'' @ dec now @ ''-'' @ dec index,
       source = ''newegg'',
       title = Some [],
       url = Some [],
       price = Some \<lparr> pvalue = Some 0, currency = ''USD'' \<rparr>,
       condition = CNew,
       returns = \<lparr> available = None, window_days = None, unknown = True \<rparr>,
       specs = \<lparr> brand = None, model = None, key_terms = [] \<rparr> \<rparr>"

text \<open>
  Title and URL. \<^verbatim>\<open>titleLink.href\<close> is undefined when the matched element is not a
  link; \<^verbatim>\<open>listing.url.match\<close> then throws.
\<close>

definition newegg_title_url :: "element \<Rightarrow> listing \<Rightarrow> js_error + listing" where
  "newegg_title_url el l =
     (case querySelector el ''.item-title, a.item-title, a[title]'' of
        None \<Rightarrow> Inr l
      | Some titleLink \<Rightarrow>
          (let l1 = l\<lparr> title := or_else (Some (trim (textContent titleLink)))
                                       (getAttribute titleLink ''title''),
                       url := idl titleLink ''href'' \<rparr>
           in case url l1 of
                None \<Rightarrow> Inl TypeError
              | Some u \<Rightarrow>
                  (case match_item_id u of
                     None \<Rightarrow> Inr l1
                   | Some g \<Rightarrow> Inr (l1\<lparr> lid := ''newegg-'' @ g \<rparr>))))"

definition set_price_value :: "real option \<Rightarrow> listing \<Rightarrow> listing" where
  "set_price_value v l =
     l\<lparr> price := (case price l of None \<Rightarrow> None | Some p \<Rightarrow> Some (p\<lparr> pvalue := v \<rparr>)) \<rparr>"

definition newegg_price :: "(string \<Rightarrow> real option) \<Rightarrow> element \<Rightarrow> listing \<Rightarrow> listing" where
  "newegg_price pf el l =
     (case querySelector el ''.price-current strong'' of
        Some priceStrong \<Rightarrow>
          (let d = filter (\<lambda>c. c \<noteq> CHR '','' \<and> c \<noteq> CHR ''$'') (textContent priceStrong);
               dollars = (if d = [] then ''0'' else d);
               cents = (case querySelector el ''.price-current sup'' of
                          None \<Rightarrow> ''00''
                        | Some priceSup \<Rightarrow>
                            (let k = filter is_digit (textContent priceSup)
                             in if k = [] then ''00'' else k))
           in set_price_value (pf (dollars @ ''.'' @ cents)) l)
      | None \<Rightarrow>
          (case querySelector el ''.price-current, [class*=\"price\"]'' of
             None \<Rightarrow> l
           | Some priceEl \<Rightarrow>
               (case match_dollars_cents (textContent priceEl) of
                  None \<Rightarrow> l
                | Some (g1, g2) \<Rightarrow>
                    set_price_value
                      (pf (strip_commas g1 @ ''.'' @ (if g2 = [] then ''00'' else g2))) l)))"

definition newegg_brand :: "element \<Rightarrow> listing \<Rightarrow> listing" where
  "newegg_brand el l =
     (let l1 = (case querySelector el ''.item-brand img, [class*=\"brand\"]'' of
                  None \<Rightarrow> l
                | Some brandEl \<Rightarrow>
                    l\<lparr> specs := (specs l)\<lparr> brand := or_else (idl brandEl ''alt'')
                                                        (Some (trim (textContent brandEl))) \<rparr> \<rparr>)
      in case title l1 of
           None \<Rightarrow> l1
         | Some t \<Rightarrow>
             if \<not> truthy (brand (specs l1)) \<and> t \<noteq> []
             then (case split_ws t of
                     [] \<Rightarrow> l1
                   | w # ws \<Rightarrow> l1\<lparr> specs := (specs l1)\<lparr> brand := Some w \<rparr> \<rparr>)
             else l1)"

text \<open>
  \<^verbatim>\<open>title.toLowerCase().replace(/[^\w\s]/g, ' ').split(/\s+/).filter(w => w.length > 2).slice(0, 10)\<close>
\<close>

definition title_terms :: "string \<Rightarrow> string list" where
  "title_terms t =
     take 10 (filter (\<lambda>w. length w > 2) (split_ws (blank_punct (toLowerCase t))))"

definition newegg_key_terms :: "listing \<Rightarrow> listing" where
  "newegg_key_terms l =
     (case title l of
        None \<Rightarrow> l
      | Some t \<Rightarrow> if t = [] then l
                  else l\<lparr> specs := (specs l)\<lparr> key_terms := title_terms t \<rparr> \<rparr>)"

definition newegg_returns :: "listing \<Rightarrow> listing" where
  "newegg_returns l =
     l\<lparr> returns := (returns l)\<lparr> available := Some True, window_days := Some 30 \<rparr> \<rparr>"

definition parseItem ::
  "(string \<Rightarrow> real option) \<Rightarrow> nat \<Rightarrow> element \<Rightarrow> nat \<Rightarrow> js_error + listing" where
  "parseItem pf now el index =
     (case newegg_title_url el (newegg_empty now index) of
        Inl e \<Rightarrow> Inl e
      | Inr l \<Rightarrow> Inr (newegg_returns (newegg_key_terms (newegg_brand el (newegg_price pf el l)))))"

text \<open>
  \<^verbatim>\<open>scrape\<close>: \<open>clock i\<close> is what \<^verbatim>\<open>Date.now()\<close> returns while item \<open>i\<close> is parsed. An
  item whose parse throws is logged and skipped.
\<close>

definition newegg_items :: "document \<Rightarrow> element list" where
  "newegg_items doc =
     (let itemCells = querySelectorAll doc ''.item-cell, .item-container'' in
      if length itemCells > 0 then itemCells
      else querySelectorAll doc ''[class*=\"product-grid\"] > div, .list-wrap .item'')"

definition scrape_item ::
  "(string \<Rightarrow> real option) \<Rightarrow> (nat \<Rightarrow> nat) \<Rightarrow> nat \<times> element \<Rightarrow> listing list" where
  "scrape_item pf clock p =
     (case parseItem pf (clock (fst p)) (snd p) (fst p) of
        Inl e \<Rightarrow> []
      | Inr listing \<Rightarrow> if truthy (title listing) \<and> truthy (url listing) then [listing] else [])"

definition scrape :: "(string \<Rightarrow> real option) \<Rightarrow> (nat \<Rightarrow> nat) \<Rightarrow> document \<Rightarrow> listing list" where
  "scrape pf clock doc =
     take 20 (concat (map (scrape_item pf clock) (enumerate 0 (newegg_items doc))))"


section \<open>Generic search parser\<close>

definition search_detectSource :: "string \<Rightarrow> string" where
  "search_detectSource host =
     (let h = toLowerCase host in
      if includes_str h ''ebay'' then ''ebay''
      else if includes_str h ''newegg'' then ''newegg''
      else if includes_str h ''amazon'' then ''amazon''
      else if includes_str h ''bestbuy'' then ''bestbuy''
      else takeWhile (\<lambda>c. c \<noteq> CHR ''.'') (replace_first ''www.'' [] h))"

definition generic_empty :: "string \<Rightarrow> nat \<Rightarrow> nat \<Rightarrow> listing" where
  "generic_empty host now index =
     \<lparr> lid = ''generic-'' @ dec now @ ''-'' @ dec index,
       source = search_detectSource host,
       title = Some [],
       url = Some [],
       price = Some \<lparr> pvalue = Some 0, currency = ''USD'' \<rparr>,
       condition = CUnknown,
       returns = \<lparr> available = None, window_days = None, unknown = True \<rparr>,
       specs = \<lparr> brand = None, model = None, key_terms = [] \<rparr> \<rparr>"

definition generic_title_url :: "element \<Rightarrow> listing \<Rightarrow> listing" where
  "generic_title_url el l =
     (case querySelector el ''a[href*=\"http\"], a.item-title, a[class*=\"product\"]'' of
        None \<Rightarrow> l
      | Some link \<Rightarrow>
          l\<lparr> title := or_else (Some (trim (textContent link)))
                          (case querySelector el ''h3, h4, [class*=\"title\"]'' of
                             None \<Rightarrow> None
                           | Some h \<Rightarrow> Some (trim (textContent h))),
              url := idl link ''href'' \<rparr>)"

definition generic_price :: "(string \<Rightarrow> real option) \<Rightarrow> element \<Rightarrow> listing \<Rightarrow> listing" where
  "generic_price pf el l =
     (case querySelector el ''[class*=\"price\"], .s-item__price'' of
        None \<Rightarrow> l
      | Some priceEl \<Rightarrow>
          (case match_amount (textContent priceEl) of
             None \<Rightarrow> l
           | Some g \<Rightarrow> set_price_value (pf (strip_commas g)) l))"

text \<open>The condition block of \<^verbatim>\<open>parseListingElement\<close>, on the text of the condition element.\<close>

definition listing_condition :: "string \<Rightarrow> condition \<Rightarrow> condition" where
  "listing_condition txt old =
     (let text = toLowerCase txt in
      if includes_str text ''new'' then CNew
      else if includes_str text ''refurb'' then CRefurb
      else if includes_str text ''used'' then CUsed
      else old)"

definition generic_condition :: "element \<Rightarrow> listing \<Rightarrow> listing" where
  "generic_condition el l =
     (case querySelector el ''[class*=\"condition\"]'' of
        None \<Rightarrow> l
      | Some conditionEl \<Rightarrow>
          l\<lparr> condition := listing_condition (textContent conditionEl) (condition l) \<rparr>)"

definition parseListingElement ::
  "(string \<Rightarrow> real option) \<Rightarrow> string \<Rightarrow> nat \<Rightarrow> element \<Rightarrow> nat \<Rightarrow> listing" where
  "parseListingElement pf host now el index =
     generic_condition el (generic_price pf el (generic_title_url el (generic_empty host now index)))"

definition listingSelectors :: "string list" where
  "listingSelectors =
     [''.srp-results .s-item'',
      ''.item-cells-wrap .item-cell'',
      ''[data-testid=\"product-card\"]'',
      ''.product-card'',
      ''.search-result-item'',
      ''[class*=\"product-listing\"]'',
      ''[class*=\"search-item\"]'']"

fun first_listing_elements :: "document \<Rightarrow> string list \<Rightarrow> element list" where
  "first_listing_elements doc [] = []"
| "first_listing_elements doc (selector # rest) =
     (let elements = querySelectorAll doc selector in
      if length elements > 0 then elements else first_listing_elements doc rest)"

definition scrapeResults ::
  "(string \<Rightarrow> real option) \<Rightarrow> (nat \<Rightarrow> nat) \<Rightarrow> document \<Rightarrow> listing list" where
  "scrapeResults pf clock doc =
     filter (\<lambda>l. truthy (title l) \<and> truthy (url l))
       (map (\<lambda>p. parseListingElement pf (hostname doc) (clock (fst p)) (snd p) (fst p))
            (enumerate 0 (take 20 (first_listing_elements doc listingSelectors))))"


section \<open>Generic product parser\<close>

definition parseCondition :: "string option \<Rightarrow> condition" where
  "parseCondition text =
     (case text of
        None \<Rightarrow> CUnknown
      | Some t \<Rightarrow>
          if t = [] then CUnknown
          else (let lower = toLowerCase t in
                if includes_str lower ''new'' then CNew
                else if includes_str lower ''refurb'' \<or> includes_str lower ''renewed'' then CRefurb
                else if includes_str lower ''used'' \<or> includes_str lower ''pre-owned'' then CUsed
                else CUnknown))"


text \<open>
  The data fields of a page Context. The objects built by \<^verbatim>\<open>parseJsonLdProduct\<close>,
  \<^verbatim>\<open>extractMetaTags\<close> and \<^verbatim>\<open>extractFromDom\<close> carry some of these keys each; a key an
  object does not have is \<open>None\<close> in its record and is not copied by \<^verbatim>\<open>Object.assign\<close>.
\<close>

record product_fields =
  p_title :: "string option"
  p_brand :: "brand_value option"
  p_image :: "image_value option"
  p_description :: "string option"
  p_price :: "real option"
  p_currency :: "string option"
  p_availability :: "string option"
  p_condition :: "condition option"
  p_rating :: "real option"
  p_reviewCount :: "int option"
  p_shippingText :: "string option"
  p_shippingCost :: "real option"

record page_context = product_fields +
  ctx_type :: string
  ctx_url :: string
  ctx_source :: string
  ctx_timestamp :: string
  ctx_keywords :: "string option"

definition no_fields :: product_fields where
  "no_fields =
     \<lparr> p_title = None, p_brand = None, p_image = None, p_description = None,
       p_price = None, p_currency = None, p_availability = None, p_condition = None,
       p_rating = None, p_reviewCount = None, p_shippingText = None, p_shippingCost = None \<rparr>"

definition detectSource :: "string \<Rightarrow> string" where
  "detectSource host =
     (let h = toLowerCase host in
      if includes_str h ''ebay'' then ''ebay''
      else if includes_str h ''newegg'' then ''newegg''
      else if includes_str h ''amazon'' then ''amazon''
      else if includes_str h ''bestbuy'' then ''bestbuy''
      else if includes_str h ''walmart'' then ''walmart''
      else if includes_str h ''target'' then ''target''
      else takeWhile (\<lambda>c. c \<noteq> CHR ''.'') (replace_first ''www.'' [] h))"

text \<open>\<^verbatim>\<open>x || null\<close> on a number: zero and \<^verbatim>\<open>NaN\<close> become \<^verbatim>\<open>null\<close>.\<close>

definition num_or_null :: "real option \<Rightarrow> real option" where
  "num_or_null v = (case v of None \<Rightarrow> None | Some x \<Rightarrow> if x = 0 then None else Some x)"

definition parse_opt :: "(string \<Rightarrow> 'a option) \<Rightarrow> string option \<Rightarrow> 'a option" where
  "parse_opt f v = (case v of None \<Rightarrow> None | Some s \<Rightarrow> f s)"

definition jsonld_brand :: "brand_value option \<Rightarrow> brand_value option" where
  "jsonld_brand b =
     (case b of
        None \<Rightarrow> None
      | Some (BrandString s) \<Rightarrow> Some (BrandString s)
      | Some (BrandObject n) \<Rightarrow>
          (case n of
             None \<Rightarrow> Some (BrandObject n)
           | Some s \<Rightarrow> if s = [] then Some (BrandObject n) else Some (BrandString s)))"

definition jsonld_image :: "image_value option \<Rightarrow> image_value option" where
  "jsonld_image i =
     (case i of
        None \<Rightarrow> None
      | Some (ImageString s) \<Rightarrow>
          (case s of [] \<Rightarrow> Some (ImageString []) | c # cs \<Rightarrow> Some (ImageString [c]))
      | Some (ImageArray xs) \<Rightarrow>
          (case xs of
             [] \<Rightarrow> Some (ImageArray [])
           | x # ys \<Rightarrow> if x = [] then Some (ImageArray xs) else Some (ImageString x))
      | Some ImageObject \<Rightarrow> Some ImageObject)"

text \<open>
  \<^verbatim>\<open>parseJsonLdProduct\<close>. \<open>pf\<close> and \<open>pint\<close> are \<^verbatim>\<open>parseFloat\<close> and \<^verbatim>\<open>parseInt\<close>. An
  empty \<^verbatim>\<open>offers\<close> array makes \<^verbatim>\<open>offer\<close> undefined, and reading its price throws.
\<close>

definition jsonld_offer :: "(string \<Rightarrow> real option) \<Rightarrow> ld_offer \<Rightarrow> product_fields \<Rightarrow> product_fields" where
  "jsonld_offer pf offer result =
     result\<lparr> p_price := num_or_null (parse_opt pf (offer_price offer)),
             p_currency := or_else (offer_priceCurrency offer) (Some ''USD''),
             p_availability := offer_availability offer,
             p_condition := Some (parseCondition (offer_itemCondition offer)) \<rparr>"

definition jsonld_offers ::
  "(string \<Rightarrow> real option) \<Rightarrow> ld_offers option \<Rightarrow> product_fields \<Rightarrow> js_error + product_fields" where
  "jsonld_offers pf offers result =
     (case offers of
        None \<Rightarrow> Inr result
      | Some (OneOffer offer) \<Rightarrow> Inr (jsonld_offer pf offer result)
      | Some (OfferArray os) \<Rightarrow>
          (case os of [] \<Rightarrow> Inl TypeError | offer # rest \<Rightarrow> Inr (jsonld_offer pf offer result)))"

definition jsonld_rating ::
  "(string \<Rightarrow> real option) \<Rightarrow> (string \<Rightarrow> int option) \<Rightarrow> ld_rating option
     \<Rightarrow> product_fields \<Rightarrow> product_fields" where
  "jsonld_rating pf pint rating result =
     (case rating of
        None \<Rightarrow> result
      | Some r \<Rightarrow> result\<lparr> p_rating := parse_opt pf (ratingValue r),
                           p_reviewCount := parse_opt pint (reviewCount r) \<rparr>)"

definition parseJsonLdProduct ::
  "(string \<Rightarrow> real option) \<Rightarrow> (string \<Rightarrow> int option) \<Rightarrow> ld_product \<Rightarrow> js_error + product_fields" where
  "parseJsonLdProduct pf pint product =
     (case jsonld_offers pf (ld_offers product)
             (no_fields\<lparr> p_title := ld_name product,
                         p_brand := jsonld_brand (ld_brand product),
                         p_image := jsonld_image (ld_image product),
                         p_description := ld_description product \<rparr>) of
        Inl e \<Rightarrow> Inl e
      | Inr result \<Rightarrow> Inr (jsonld_rating pf pint (ld_aggregateRating product) result))"

text \<open>
  \<^verbatim>\<open>extractJsonLd\<close>. Within one script the first item that is a Product, or the first
  Product of an item's \<^verbatim>\<open>@graph\<close>, is parsed and returned; a script that does not parse,
  or whose product makes \<^verbatim>\<open>parseJsonLdProduct\<close> throw, is skipped.
\<close>

definition is_product_type :: "ld_type \<Rightarrow> bool" where
  "is_product_type t =
     (case t of
        TypeAbsent \<Rightarrow> False
      | TypeString s \<Rightarrow> s = ''Product'' \<or> includes_str s ''Product''
      | TypeArray ts \<Rightarrow> ''Product'' \<in> set ts)"

fun first_graph_product :: "ld_object list \<Rightarrow> ld_product option" where
  "first_graph_product [] = None"
| "first_graph_product (graphItem # rest) =
     (if at_type graphItem = TypeString ''Product'' then Some (at_fields graphItem)
      else first_graph_product rest)"

fun first_product :: "ld_object list \<Rightarrow> ld_product option" where
  "first_product [] = None"
| "first_product (item # rest) =
     (if is_product_type (at_type item) then Some (at_fields item)
      else (case at_graph item of
              None \<Rightarrow> first_product rest
            | Some g \<Rightarrow>
                (case first_graph_product g of
                   Some product \<Rightarrow> Some product
                 | None \<Rightarrow> first_product rest)))"

definition script_items :: "ld_json \<Rightarrow> ld_object list option" where
  "script_items data =
     (case data of
        LdInvalid \<Rightarrow> None
      | LdSingle item \<Rightarrow> Some [item]
      | LdArray items \<Rightarrow> Some items)"

fun extractJsonLd ::
  "(string \<Rightarrow> real option) \<Rightarrow> (string \<Rightarrow> int option) \<Rightarrow> ld_json list \<Rightarrow> product_fields option" where
  "extractJsonLd pf pint [] = None"
| "extractJsonLd pf pint (script # rest) =
     (case script_items script of
        None \<Rightarrow> extractJsonLd pf pint rest
      | Some items \<Rightarrow>
          (case first_product items of
             None \<Rightarrow> extractJsonLd pf pint rest
           | Some product \<Rightarrow>
               (case parseJsonLdProduct pf pint product of
                  Inl e \<Rightarrow> extractJsonLd pf pint rest
                | Inr result \<Rightarrow> Some result)))"


definition getMetaContent :: "document \<Rightarrow> string \<Rightarrow> string option" where
  "getMetaContent doc name =
     (case doc_querySelector doc
             (''meta[property=\"'' @ name @ ''\"], meta[name=\"'' @ name @ ''\"]'') of
        None \<Rightarrow> None
      | Some meta \<Rightarrow> or_else (idl meta ''content'') None)"

definition extractMetaTags :: "(string \<Rightarrow> real option) \<Rightarrow> document \<Rightarrow> product_fields" where
  "extractMetaTags pf doc =
     (let result = no_fields\<lparr>
            p_title := getMetaContent doc ''og:title'',
            p_image := map_option ImageString (getMetaContent doc ''og:image''),
            p_description := getMetaContent doc ''og:description'',
            p_price := num_or_null (parse_opt pf (getMetaContent doc ''product:price:amount'')),
            p_currency := or_else (getMetaContent doc ''product:price:currency'') (Some ''USD''),
            p_brand := map_option BrandString (getMetaContent doc ''product:brand'') \<rparr>
      in if \<not> truthy (p_title result)
         then result\<lparr> p_title := getMetaContent doc ''twitter:title'' \<rparr>
         else result)"

fun getFirstText :: "document \<Rightarrow> string list \<Rightarrow> string option" where
  "getFirstText doc [] = None"
| "getFirstText doc (selector # rest) =
     (case doc_querySelector doc selector of
        None \<Rightarrow> getFirstText doc rest
      | Some el \<Rightarrow>
          (let text = trim (textContent el) in
           if text \<noteq> [] \<and> length text < 500 then Some text else getFirstText doc rest))"

definition parsePrice :: "(string \<Rightarrow> real option) \<Rightarrow> string option \<Rightarrow> real option" where
  "parsePrice pf text =
     (case text of
        None \<Rightarrow> None
      | Some t \<Rightarrow>
          if t = [] then None
          else (case match_amount t of
                  None \<Rightarrow> None
                | Some g \<Rightarrow> pf (strip_commas g)))"

definition titleSelectors :: "string list" where
  "titleSelectors =
     [''h1[itemprop=\"name\"]'',
      ''[data-testid=\"product-title\"]'',
      ''.product-title h1'',
      ''.product-name h1'',
      ''#productTitle'',
      ''h1.product-title'',
      ''.pdp-title h1'',
      ''h1'']"

definition priceSelectors :: "string list" where
  "priceSelectors =
     [''[itemprop=\"price\"]'',
      ''[data-testid=\"product-price\"]'',
      ''.product-price'',
      ''.price-current'',
      ''#priceblock_ourprice'',
      ''.main-price'',
      ''[class*=\"price\"]:not([class*=\"was-price\"]):not([class*=\"old-price\"])'',
      ''.sale-price'',
      ''.now-price'']"

definition shippingSelectors :: "string list" where
  "shippingSelectors =
     [''[data-testid=\"shipping-price\"]'',
      ''.shipping-price'',
      ''#shipping-message'',
      ''[class*=\"shipping\"]'',
      ''[class*=\"delivery\"]'']"

definition brandSelectors :: "string list" where
  "brandSelectors =
     [''[itemprop=\"brand\"]'',
      ''.product-brand'',
      ''.brand-name'',
      ''a[href*=\"/brand/\"]'']"

definition conditionSelectors :: "string list" where
  "conditionSelectors =
     [''[itemprop=\"itemCondition\"]'',
      ''.condition'',
      ''[class*=\"condition\"]'']"

definition extractFromDom :: "(string \<Rightarrow> real option) \<Rightarrow> document \<Rightarrow> product_fields" where
  "extractFromDom pf doc =
     (let shippingText = getFirstText doc shippingSelectors in
      no_fields\<lparr>
        p_title := getFirstText doc titleSelectors,
        p_price := parsePrice pf (getFirstText doc priceSelectors),
        p_shippingText := shippingText,
        p_shippingCost :=
          (case shippingText of
             None \<Rightarrow> None
           | Some t \<Rightarrow> if includes_str (toLowerCase t) ''free'' then Some 0
                       else parsePrice pf shippingText),
        p_brand := map_option BrandString (getFirstText doc brandSelectors),
        p_condition := Some (parseCondition (getFirstText doc conditionSelectors)) \<rparr>)"

text \<open>\<^verbatim>\<open>[...new Set(parts)].join(' ')\<close>: the first occurrence of each part, in order.\<close>

definition unique_in_order :: "string list \<Rightarrow> string list" where
  "unique_in_order parts = rev (remdups (rev parts))"

fun join :: "string \<Rightarrow> string list \<Rightarrow> string" where
  "join sep [] = []"
| "join sep [x] = x"
| "join sep (x # y # ys) = x @ sep @ join sep (y # ys)"

definition generateKeywords :: "page_context \<Rightarrow> string" where
  "generateKeywords c =
     (let brandPart = (case p_brand c of
                         None \<Rightarrow> []
                       | Some (BrandString b) \<Rightarrow> if b = [] then [] else [b]
                       | Some (BrandObject n) \<Rightarrow> [''[object Object]'']);
          titleWords = (case p_title c of
                          None \<Rightarrow> []
                        | Some t \<Rightarrow>
                            if t = [] then []
                            else take 6 (filter (\<lambda>w. length w > 2) (split_ws (blank_punct t))))
      in join '' '' (unique_in_order (brandPart @ titleWords)))"

text \<open>
  \<^verbatim>\<open>Object.assign(context, jsonLdData)\<close>, \<^verbatim>\<open>Object.assign(context, metaData)\<close> and
  \<^verbatim>\<open>Object.assign(context, domData)\<close>: each copies the keys its source object has. The
  JSON-LD object has the offer keys and the rating keys only when the product has
  offers or a rating; on the fresh context these are unset either way.
\<close>

definition assign_jsonld :: "product_fields \<Rightarrow> page_context \<Rightarrow> page_context" where
  "assign_jsonld d c =
     c\<lparr> p_title := p_title d, p_brand := p_brand d, p_image := p_image d,
        p_description := p_description d, p_price := p_price d, p_currency := p_currency d,
        p_availability := p_availability d, p_condition := p_condition d,
        p_rating := p_rating d, p_reviewCount := p_reviewCount d \<rparr>"

definition assign_meta :: "product_fields \<Rightarrow> page_context \<Rightarrow> page_context" where
  "assign_meta d c =
     c\<lparr> p_title := p_title d, p_image := p_image d, p_description := p_description d,
        p_price := p_price d, p_currency := p_currency d, p_brand := p_brand d \<rparr>"

definition assign_dom :: "product_fields \<Rightarrow> page_context \<Rightarrow> page_context" where
  "assign_dom d c =
     c\<lparr> p_title := p_title d, p_price := p_price d, p_shippingText := p_shippingText d,
        p_shippingCost := p_shippingCost d, p_brand := p_brand d,
        p_condition := p_condition d \<rparr>"

definition empty_context :: "string \<Rightarrow> document \<Rightarrow> page_context" where
  "empty_context timestamp doc =
     \<lparr> p_title = None, p_brand = None, p_image = None, p_description = None,
       p_price = None, p_currency = None, p_availability = None, p_condition = None,
       p_rating = None, p_reviewCount = None, p_shippingText = None, p_shippingCost = None,
       ctx_type = ''unknown'',
       ctx_url = location_href doc,
       ctx_source = detectSource (hostname doc),
       ctx_timestamp = timestamp,
       ctx_keywords = None \<rparr>"

text \<open>
  \<^verbatim>\<open>GenericProductParser.extract\<close>. \<open>timestamp\<close> is \<^verbatim>\<open>new Date().toISOString()\<close>.
\<close>

definition extract_page ::
  "(string \<Rightarrow> real option) \<Rightarrow> (string \<Rightarrow> int option) \<Rightarrow> string \<Rightarrow> document \<Rightarrow> page_context" where
  "extract_page pf pint timestamp doc =
     (let c = empty_context timestamp doc in
      case extractJsonLd pf pint (ld_scripts doc) of
        Some jsonLdData \<Rightarrow> (assign_jsonld jsonLdData c)\<lparr> ctx_type := ''product'' \<rparr>
      | None \<Rightarrow>
          (let metaData = extractMetaTags pf doc;
               c1 = (if truthy (p_title metaData) then assign_meta metaData c else c);
               domData = extractFromDom pf doc;
               c2 = (if truthy (p_title domData) \<or> num_or_null (p_price domData) \<noteq> None
                     then (assign_dom domData c1)\<lparr> ctx_type := ''product'' \<rparr>
                     else c1)
           in c2\<lparr> ctx_keywords := Some (generateKeywords c2) \<rparr>))"


section \<open>Service worker: gathering and ranking\<close>

text \<open>
  What the world answers to a request. A \<^verbatim>\<open>fetch\<close> either rejects or resolves to a
  response with a status; \<^verbatim>\<open>response.ok\<close> holds for status 200 to 299. The body either
  is not JSON (\<^verbatim>\<open>response.json()\<close> rejects), is JSON \<^verbatim>\<open>null\<close> (reading a property of it
  throws), or is a value whose \<^verbatim>\<open>listings\<close> or \<^verbatim>\<open>ranked\<close> property is an array
  (\<open>Some\<close>) or is missing or falsy (\<open>None\<close>).
\<close>

datatype 'a json_body = BodyInvalid | BodyNull | BodyValue "'a option"

datatype 'a http_outcome = FetchRejected | Response nat "'a json_body"

definition response_ok :: "nat \<Rightarrow> bool" where
  "response_ok status = (200 \<le> status \<and> status \<le> 299)"

text \<open>
  The Newegg source opens a tab, messages its content script and closes the tab. Each of
  the three calls may reject; the answer may be undefined, or an object with an
  \<^verbatim>\<open>error\<close> or with \<^verbatim>\<open>listings\<close>.
\<close>

datatype scrape_reply =
  NoReply | Reply (reply_error: "string option") (reply_listings: "listing list option")

datatype newegg_outcome =
  TabCreateRejected | SendMessageRejected | TabRemoveRejected | Answered scrape_reply

record ranked_result =
  listing :: listing
  score_total :: real
  score_breakdown :: "(string \<times> real) list"
  explanation_bullets :: "string list"

record decision_spec =
  query :: string
  budget_max :: real
  condition_allowed :: "condition list"
  delivery_priority :: string
  risk_tolerance :: string
  required_keywords :: "string list"
  banned_keywords :: "string list"
  brand_whitelist :: "string list"
  brand_blacklist :: "string list"
  weights :: "(string \<times> real) list"

record 'c environment =
  fetch_ebay :: "string \<Rightarrow> listing list http_outcome"
  scrape_newegg :: "string \<Rightarrow> newegg_outcome"
  fetch_rank :: "decision_spec \<Rightarrow> 'c \<Rightarrow> listing list \<Rightarrow> ranked_result list http_outcome"

text \<open>\<^verbatim>\<open>data.listings || []\<close> and \<^verbatim>\<open>data.ranked || []\<close>.\<close>

definition or_empty :: "'a list option \<Rightarrow> 'a list" where
  "or_empty v = (case v of None \<Rightarrow> [] | Some xs \<Rightarrow> xs)"

text \<open>The \<^verbatim>\<open>try\<close> block shared by \<^verbatim>\<open>fetchEbayCandidates\<close> and \<^verbatim>\<open>rankCandidates\<close>.\<close>

definition fetch_json :: "string \<Rightarrow> 'a list http_outcome \<Rightarrow> js_error + 'a list" where
  "fetch_json what out =
     (case out of
        FetchRejected \<Rightarrow> Inl NetworkFailure
      | Response status body \<Rightarrow>
          if \<not> response_ok status then Inl (Error (what @ dec status))
          else (case body of
                  BodyInvalid \<Rightarrow> Inl SyntaxError
                | BodyNull \<Rightarrow> Inl TypeError
                | BodyValue v \<Rightarrow> Inr (or_empty v)))"

definition fetchEbayCandidates :: "'c environment \<Rightarrow> string \<Rightarrow> listing list" where
  "fetchEbayCandidates env q =
     (case fetch_json ''eBay API error: '' (fetch_ebay env q) of
        Inl error \<Rightarrow> []
      | Inr listings \<Rightarrow> listings)"

definition newegg_try :: "newegg_outcome \<Rightarrow> js_error + listing list" where
  "newegg_try out =
     (case out of
        TabCreateRejected \<Rightarrow> Inl (Error ''tabs.create'')
      | SendMessageRejected \<Rightarrow> Inl (Error ''tabs.sendMessage'')
      | TabRemoveRejected \<Rightarrow> Inl (Error ''tabs.remove'')
      | Answered NoReply \<Rightarrow> Inl TypeError
      | Answered (Reply err ls) \<Rightarrow>
          (case err of
             None \<Rightarrow> Inr (or_empty ls)
           | Some msg \<Rightarrow> if msg = [] then Inr (or_empty ls) else Inl (Error msg)))"

definition fetchNeweggCandidates :: "'c environment \<Rightarrow> string \<Rightarrow> listing list" where
  "fetchNeweggCandidates env q =
     (case newegg_try (scrape_newegg env q) of
        Inl error \<Rightarrow> []
      | Inr listings \<Rightarrow> listings)"

text \<open>
  \<^verbatim>\<open>gatherCandidates\<close> pushes the eBay results, then the Newegg results. Both fetch
  functions catch everything themselves, so its own two \<^verbatim>\<open>catch\<close> blocks are never
  entered.
\<close>

definition gatherCandidates :: "'c environment \<Rightarrow> string \<Rightarrow> listing list" where
  "gatherCandidates env q = fetchEbayCandidates env q @ fetchNeweggCandidates env q"

text \<open>
  The fallback of \<^verbatim>\<open>rankCandidates\<close>. The comparator is the difference of
  \<^verbatim>\<open>a.price?.value || 0\<close> and \<^verbatim>\<open>b.price?.value || 0\<close>, and \<^verbatim>\<open>Array.prototype.sort\<close> is
  stable, as is \<open>sort_key\<close>.
\<close>

definition price_key :: "listing \<Rightarrow> real" where
  "price_key a =
     (case price a of
        None \<Rightarrow> 0
      | Some p \<Rightarrow> (case pvalue p of None \<Rightarrow> 0 | Some v \<Rightarrow> v))"

definition fallback_result :: "listing \<Rightarrow> ranked_result" where
  "fallback_result l =
     \<lparr> listing = l,
       score_total = 0.5,
       score_breakdown = [],
       explanation_bullets = [''Ranking unavailable - sorted by price''] \<rparr>"

definition rankCandidates ::
  "'c environment \<Rightarrow> decision_spec \<Rightarrow> 'c \<Rightarrow> listing list \<Rightarrow> ranked_result list" where
  "rankCandidates env decisionSpec ctx cands =
     (case fetch_json ''Ranking server error: '' (fetch_rank env decisionSpec ctx cands) of
        Inr ranked \<Rightarrow> ranked
      | Inl error \<Rightarrow> map fallback_result (take 10 (sort_key price_key cands)))"

text \<open>
  The sort is in place, on the array that \<^verbatim>\<open>agentState.candidates\<close> also refers to:
  this is that array after the call.
\<close>

definition candidates_after_rank ::
  "'c environment \<Rightarrow> decision_spec \<Rightarrow> 'c \<Rightarrow> listing list \<Rightarrow> listing list" where
  "candidates_after_rank env decisionSpec ctx cands =
     (case fetch_json ''Ranking server error: '' (fetch_rank env decisionSpec ctx cands) of
        Inr ranked \<Rightarrow> cands
      | Inl error \<Rightarrow> sort_key price_key cands)"

record 'c agent_state =
  st_lastRun :: "string option"
  st_candidates :: "listing list"
  st_ranked :: "ranked_result list"
  st_context :: "'c option"
  st_decisionSpec :: "decision_spec option"

record find_deals_result =
  ranked :: "ranked_result list"
  message :: "string option"
  total_candidates :: "nat option"

text \<open>
  \<^verbatim>\<open>handleFindDeals\<close>, with the agent state passed in and returned. \<open>now\<close> is
  \<^verbatim>\<open>new Date().toISOString()\<close>. Neither call in its \<^verbatim>\<open>try\<close> block throws, so the
  rethrowing \<^verbatim>\<open>catch\<close> is never entered.
\<close>

definition handleFindDeals ::
  "'c environment \<Rightarrow> string \<Rightarrow> 'c agent_state \<Rightarrow> decision_spec \<times> 'c
     \<Rightarrow> 'c agent_state \<times> find_deals_result" where
  "handleFindDeals env now st payload =
     (let decision_spec = fst payload;
          ctx = snd payload;
          st1 = st\<lparr> st_decisionSpec := Some decision_spec, st_context := Some ctx,
                    st_lastRun := Some now \<rparr>;
          cands = gatherCandidates env (query decision_spec);
          st2 = st1\<lparr> st_candidates := cands \<rparr>
      in if length cands = 0
         then (st2, \<lparr> ranked = [], message = Some ''No candidates found'',
                      total_candidates = None \<rparr>)
         else (let result = rankCandidates env decision_spec ctx cands;
                   st3 = st2\<lparr> st_candidates := candidates_after_rank env decision_spec ctx cands,
                              st_ranked := result \<rparr>
               in (st3, \<lparr> ranked = result, message = None,
                          total_candidates = Some (length cands) \<rparr>)))"

text \<open>
  When a call counts as failed: the \<^verbatim>\<open>fetch\<close> rejects (network error), the status is
  not 2xx, or the body is not a JSON value with properties. For the Newegg source:
  a tab call rejects, no answer arrives, or the content script answers with an error.
\<close>

definition http_call_fails :: "'a http_outcome \<Rightarrow> bool" where
  "http_call_fails out =
     (case out of
        FetchRejected \<Rightarrow> True
      | Response status body \<Rightarrow>
          status < 200 \<or> 299 < status
          \<or> (case body of BodyInvalid \<Rightarrow> True | BodyNull \<Rightarrow> True | BodyValue v \<Rightarrow> False))"

definition newegg_call_fails :: "newegg_outcome \<Rightarrow> bool" where
  "newegg_call_fails out =
     (case out of
        Answered NoReply \<Rightarrow> True
      | Answered (Reply err ls) \<Rightarrow> truthy err
      | _ \<Rightarrow> True)"


section \<open>Sample pages and answers\<close>

text \<open>Concrete inputs on which the model is run below.\<close>

definition sample_parseFloat :: "string \<Rightarrow> real option" where
  "sample_parseFloat s =
     (if s = ''129.99'' then Some 129.99 else if s = ''0.00'' then Some 0 else None)"

definition sample_parseInt :: "string \<Rightarrow> int option" where
  "sample_parseInt s = (if s = ''12'' then Some 12 else None)"

definition zero_clock :: "nat \<Rightarrow> nat" where
  "zero_clock i = 0"

definition text_node :: "string \<Rightarrow> node" where
  "text_node t = \<lparr> textContent = t, getAttribute = (\<lambda>a. None), idl = (\<lambda>k. None) \<rparr>"

definition link_node :: "string \<Rightarrow> string \<Rightarrow> node" where
  "link_node t h =
     \<lparr> textContent = t, getAttribute = (\<lambda>a. None),
       idl = (\<lambda>k. if k = ''href'' then Some h else None) \<rparr>"

definition meta_node :: "string \<Rightarrow> node" where
  "meta_node v =
     \<lparr> textContent = [], getAttribute = (\<lambda>a. None),
       idl = (\<lambda>k. if k = ''content'' then Some v else None) \<rparr>"

text \<open>
  A Newegg result card: a title link with a repeated word, a price in two parts, and a
  condition label saying the item is used.
\<close>

definition sample_card :: element where
  "sample_card =
     \<lparr> el_textContent = ''Samsung SSD 990 PRO SSD $129.99 Used'',
       querySelector = (\<lambda>sel.
         if sel = ''.item-title, a.item-title, a[title]''
            \<or> sel = ''a[href*=\"http\"], a.item-title, a[class*=\"product\"]''
         then Some (link_node '' Samsung SSD 990 PRO SSD '' ''https://www.newegg.com/p/N82E16820147860'')
         else if sel = ''.price-current strong'' then Some (text_node ''129'')
         else if sel = ''.price-current sup'' then Some (text_node ''.99'')
         else if sel = ''[class*=\"price\"], .s-item__price'' then Some (text_node ''$129.99'')
         else if sel = ''[class*=\"condition\"]'' then Some (text_node ''Used'')
         else None) \<rparr>"

text \<open>A card without a title link, and a card whose title element is not a link.\<close>

definition untitled_card :: element where
  "untitled_card =
     \<lparr> el_textContent = ''$5.00'',
       querySelector = (\<lambda>sel.
         if sel = ''.price-current strong'' then Some (text_node ''5'') else None) \<rparr>"

definition heading_card :: element where
  "heading_card =
     \<lparr> el_textContent = ''Open box deals'',
       querySelector = (\<lambda>sel.
         if sel = ''.item-title, a.item-title, a[title]''
         then Some (text_node ''Open box deals'') else None) \<rparr>"

definition sample_page :: document where
  "sample_page =
     \<lparr> hostname = ''www.newegg.com'',
       location_href = ''https://www.newegg.com/p/pl?d=ssd'',
       doc_title = ''ssd | Newegg.com'',
       querySelectorAll = (\<lambda>sel.
         if sel = ''.item-cell, .item-container'' \<or> sel = ''.item-cells-wrap .item-cell''
         then [untitled_card, sample_card, heading_card] else []),
       doc_querySelector = (\<lambda>sel. None),
       ld_scripts = [] \<rparr>"

definition sample_listing :: listing where
  "sample_listing =
     \<lparr> lid = ''newegg-N82E16820147860'',
       source = ''newegg'',
       title = Some ''Samsung SSD 990 PRO SSD'',
       url = Some ''https://www.newegg.com/p/N82E16820147860'',
       price = Some \<lparr> pvalue = Some 129.99, currency = ''USD'' \<rparr>,
       condition = CNew,
       returns = \<lparr> available = Some True, window_days = Some 30, unknown = True \<rparr>,
       specs = \<lparr> brand = Some ''Samsung'', model = None,
                 key_terms = [''samsung'', ''ssd'', ''990'', ''pro'', ''ssd''] \<rparr> \<rparr>"

text \<open>A page with twenty-five copies of the sample card.\<close>

definition crowded_page :: document where
  "crowded_page =
     sample_page\<lparr> querySelectorAll := (\<lambda>sel.
       if sel = ''.item-cell, .item-container'' \<or> sel = ''.item-cells-wrap .item-cell''
       then replicate 25 sample_card else []) \<rparr>"

text \<open>What the generic parser makes of the same card.\<close>

definition sample_generic_listing :: listing where
  "sample_generic_listing =
     \<lparr> lid = ''generic-0-1'',
       source = ''newegg'',
       title = Some ''Samsung SSD 990 PRO SSD'',
       url = Some ''https://www.newegg.com/p/N82E16820147860'',
       price = Some \<lparr> pvalue = Some 129.99, currency = ''USD'' \<rparr>,
       condition = CUsed,
       returns = \<lparr> available = None, window_days = None, unknown = True \<rparr>,
       specs = \<lparr> brand = None, model = None, key_terms = [] \<rparr> \<rparr>"

text \<open>
  A product page whose JSON-LD Product has a name only, while its meta tags give a
  title, a brand and a price.
\<close>

definition sample_product :: ld_product where
  "sample_product =
     \<lparr> ld_name = Some ''Widget'', ld_brand = None, ld_image = None, ld_description = None,
       ld_offers = None, ld_aggregateRating = None \<rparr>"

definition sample_meta :: "string \<Rightarrow> node option" where
  "sample_meta sel =
     (if sel = ''meta[property=\"og:title\"], meta[name=\"og:title\"]''
      then Some (meta_node ''Acme Widget'')
      else if sel = ''meta[property=\"product:brand\"], meta[name=\"product:brand\"]''
      then Some (meta_node ''Acme'')
      else if sel = ''meta[property=\"product:price:amount\"], meta[name=\"product:price:amount\"]''
      then Some (meta_node ''129.99'')
      else None)"

definition sample_product_page :: document where
  "sample_product_page =
     \<lparr> hostname = ''shop.example.com'',
       location_href = ''https://shop.example.com/widget'',
       doc_title = ''Widget'',
       querySelectorAll = (\<lambda>sel. []),
       doc_querySelector = sample_meta,
       ld_scripts = [LdInvalid, LdSingle (LdObject (TypeString ''Product'') sample_product None)] \<rparr>"

text \<open>The same page without its JSON-LD scripts.\<close>

definition sample_meta_page :: document where
  "sample_meta_page = sample_product_page\<lparr> ld_scripts := [LdInvalid] \<rparr>"

text \<open>Listings as a server may return them, and worlds in which calls fail.\<close>

definition priced :: "string \<Rightarrow> real \<Rightarrow> listing" where
  "priced name v =
     \<lparr> lid = name, source = ''ebay'', title = Some name,
       url = Some (''https://www.ebay.com/itm/'' @ name),
       price = Some \<lparr> pvalue = Some v, currency = ''USD'' \<rparr>,
       condition = CNew,
       returns = \<lparr> available = None, window_days = None, unknown = True \<rparr>,
       specs = \<lparr> brand = None, model = None, key_terms = [] \<rparr> \<rparr>"

definition sample_spec :: decision_spec where
  "sample_spec =
     \<lparr> query = ''rtx 4070'', budget_max = 500, condition_allowed = [CNew, CRefurb],
       delivery_priority = ''med'', risk_tolerance = ''med'',
       required_keywords = [], banned_keywords = [], brand_whitelist = [], brand_blacklist = [],
       weights = [(''price'', 0.25), (''delivery'', 0.20), (''reliability'', 0.25),
                  (''returns'', 0.15), (''spec_match'', 0.15)] \<rparr>"

definition sample_candidates :: "listing list" where
  "sample_candidates = [priced ''a'' 550, priced ''b'' 600, priced ''c'' 580]"

definition twelve_candidates :: "listing list" where
  "twelve_candidates = map (\<lambda>n. priced (dec n) (real (100 - n))) [0..<12]"

definition rank_down :: "unit environment" where
  "rank_down =
     \<lparr> fetch_ebay = (\<lambda>q. Response 200 (BodyValue (Some sample_candidates))),
       scrape_newegg = (\<lambda>q. SendMessageRejected),
       fetch_rank = (\<lambda>d c l. Response 503 BodyInvalid) \<rparr>"

definition ebay_down :: "unit environment" where
  "ebay_down =
     \<lparr> fetch_ebay = (\<lambda>q. FetchRejected),
       scrape_newegg = (\<lambda>q. Answered (Reply None (Some [sample_listing]))),
       fetch_rank = (\<lambda>d c l. FetchRejected) \<rparr>"

definition all_down :: "unit environment" where
  "all_down =
     \<lparr> fetch_ebay = (\<lambda>q. Response 500 BodyNull),
       scrape_newegg = (\<lambda>q. Answered (Reply (Some ''Unknown message type'') None)),
       fetch_rank = (\<lambda>d c l. FetchRejected) \<rparr>"




definition idle_state :: "unit agent_state" where
  "idle_state =
     \<lparr> st_lastRun = None, st_candidates = [], st_ranked = [], st_context = None,
       st_decisionSpec = None \<rparr>"

section \<open>Strings\<close>

lemma truthy_iff: "truthy v \<longleftrightarrow> (\<exists>s. v = Some s \<and> s \<noteq> [])"
  by (cases v) (simp_all add: truthy_def)

lemma truthy_empty: "\<not> truthy (Some [])" "\<not> truthy None"
  by (simp_all add: truthy_def)

lemma code_char_of: "n < 256 \<Longrightarrow> code (char_of n) = n"
  by (simp add: code_def)

lemma lower_char_not_upper: "\<not> is_upper (lower_char c)"
proof (cases "is_upper c \<or> (192 \<le> code c \<and> code c \<le> 222 \<and> code c \<noteq> 215)")
  case True
  then have "code c + 32 < 256" by (auto simp: is_upper_def)
  then have "code (char_of (code c + 32)) = code c + 32" by (rule code_char_of)
  with True show ?thesis by (auto simp: lower_char_def is_upper_def)
next
  case False
  then show ?thesis by (auto simp: lower_char_def)
qed

lemma space_facts: "is_ws (CHR '' '')" "\<not> is_upper (CHR '' '')"
  by (simp_all add: is_ws_def is_upper_def code_def)

lemma blank_punct_chars: "c \<in> set (blank_punct s) \<Longrightarrow> is_word c \<or> is_ws c"
  by (auto simp: blank_punct_def space_facts split: if_splits)

lemma blank_punct_lower: "c \<in> set (blank_punct (toLowerCase s)) \<Longrightarrow> \<not> is_upper c"
  by (auto simp: blank_punct_def toLowerCase_def space_facts lower_char_not_upper split: if_splits)

text \<open>A piece of a split holds no white space, and the pieces together are the other characters.\<close>

lemma split_chars:
  "w \<in> set (split_piece cur s) \<Longrightarrow> c \<in> set w \<Longrightarrow> c \<in> set cur \<or> (c \<in> set s \<and> \<not> is_ws c)"
  "w \<in> set (split_gap s) \<Longrightarrow> c \<in> set w \<Longrightarrow> c \<in> set s \<and> \<not> is_ws c"
  by (induction cur s and s arbitrary: w and w rule: split_piece_split_gap.induct)
     (auto split: if_splits)

lemma split_ws_chars: "w \<in> set (split_ws s) \<Longrightarrow> c \<in> set w \<Longrightarrow> c \<in> set s \<and> \<not> is_ws c"
  using split_chars(1) [of w "[]" s c] by (simp add: split_ws_def)

lemma concat_split:
  "concat (split_piece cur s) = cur @ filter (\<lambda>c. \<not> is_ws c) s"
  "concat (split_gap s) = filter (\<lambda>c. \<not> is_ws c) s"
  by (induction cur s and s rule: split_piece_split_gap.induct) auto

lemma concat_split_ws: "concat (split_ws s) = filter (\<lambda>c. \<not> is_ws c) s"
  by (simp add: split_ws_def concat_split)

lemma subseq_concat_filter: "subseq (concat (filter P xs)) (concat xs)"
  by (induction xs) (auto intro: list_emb_append_mono list_emb_append2)

lemma subseq_concat_take: "subseq (concat (take n xs)) (concat xs)"
proof -
  have "concat xs = concat (take n xs) @ concat (drop n xs)"
    by (metis append_take_drop_id concat_append)
  then show ?thesis by (simp add: list_emb_prefix)
qed

lemma filter_blank_punct:
  "filter (\<lambda>c. \<not> is_ws c) (blank_punct s) = filter (\<lambda>c. is_word c \<and> \<not> is_ws c) s"
  by (induction s) (auto simp: blank_punct_def space_facts)

text \<open>\<^verbatim>\<open>includes\<close> is the sublist relation, so it is transitive.\<close>

lemma includes_str_sublist: "includes_str s sub \<longleftrightarrow> sublist sub s"
  by (induction s) (auto simp: sublist_Cons_right)

lemma renewed_includes_new: "includes_str s ''renewed'' \<Longrightarrow> includes_str s ''new''"
proof -
  assume "includes_str s ''renewed''"
  then have "sublist ''renewed'' s" by (simp add: includes_str_sublist)
  moreover have "sublist ''new'' ''renewed''"
    unfolding sublist_def by (intro exI [of _ "''re''"] exI [of _ "''ed''"]) simp
  ultimately have "sublist ''new'' s" by (rule sublist_order.order_trans [rotated])
  then show ?thesis by (simp add: includes_str_sublist)
qed


section \<open>Key terms of a title\<close>

lemma title_terms_empty: "title_terms [] = []"
  by (simp add: title_terms_def split_ws_def blank_punct_def toLowerCase_def)

lemma title_terms_length: "length (title_terms t) \<le> 10"
  by (simp add: title_terms_def)

lemma title_terms_tokens:
  assumes "w \<in> set (title_terms t)"
  shows "length w > 2 \<and> (\<forall>c\<in>set w. is_word c \<and> \<not> is_upper c)"
proof -
  from assms
  have w: "w \<in> set (filter (\<lambda>w. length w > 2) (split_ws (blank_punct (toLowerCase t))))"
    unfolding title_terms_def by (rule in_set_takeD)
  then have len: "length w > 2" and tok: "w \<in> set (split_ws (blank_punct (toLowerCase t)))"
    by simp_all
  have "is_word c \<and> \<not> is_upper c" if "c \<in> set w" for c
  proof -
    from split_ws_chars [OF tok that]
    have c: "c \<in> set (blank_punct (toLowerCase t))" and nws: "\<not> is_ws c" by simp_all
    from blank_punct_chars [OF c] nws blank_punct_lower [OF c] show ?thesis by simp
  qed
  with len show ?thesis by simp
qed

lemma title_terms_subseq: "subseq (concat (title_terms t)) (toLowerCase t)"
proof -
  let ?toks = "split_ws (blank_punct (toLowerCase t))"
  have "subseq (concat (title_terms t)) (concat (filter (\<lambda>w. length w > 2) ?toks))"
    unfolding title_terms_def by (rule subseq_concat_take)
  also have "subseq (concat (filter (\<lambda>w. length w > 2) ?toks)) (concat ?toks)"
    by (rule subseq_concat_filter)
  also have "concat ?toks = filter (\<lambda>c. is_word c \<and> \<not> is_ws c) (toLowerCase t)"
    by (simp add: concat_split_ws filter_blank_punct)
  also have "subseq \<dots> (toLowerCase t)" by simp
  finally show ?thesis .
qed


section \<open>Steps of the Newegg parser\<close>

text \<open>Which fields each step of \<^verbatim>\<open>parseItem\<close> leaves alone.\<close>

lemma newegg_title_url_keeps:
  "newegg_title_url el l = Inr l' \<Longrightarrow>
     condition l' = condition l \<and> returns l' = returns l \<and> specs l' = specs l"
  by (auto simp: newegg_title_url_def Let_def split: option.splits)

lemma set_price_value_keeps:
  "condition (set_price_value v l) = condition l \<and> returns (set_price_value v l) = returns l
   \<and> title (set_price_value v l) = title l \<and> url (set_price_value v l) = url l
   \<and> specs (set_price_value v l) = specs l"
  by (simp add: set_price_value_def)

lemma newegg_price_keeps:
  "condition (newegg_price pf el l) = condition l \<and> returns (newegg_price pf el l) = returns l
   \<and> title (newegg_price pf el l) = title l \<and> url (newegg_price pf el l) = url l
   \<and> specs (newegg_price pf el l) = specs l"
  by (simp add: newegg_price_def set_price_value_keeps Let_def split: option.splits prod.splits)

lemma newegg_brand_keeps:
  "condition (newegg_brand el l) = condition l \<and> returns (newegg_brand el l) = returns l
   \<and> title (newegg_brand el l) = title l \<and> url (newegg_brand el l) = url l
   \<and> key_terms (specs (newegg_brand el l)) = key_terms (specs l)"
  by (simp add: newegg_brand_def Let_def split: option.splits list.splits)

lemma newegg_key_terms_keeps:
  "condition (newegg_key_terms l) = condition l \<and> returns (newegg_key_terms l) = returns l
   \<and> title (newegg_key_terms l) = title l \<and> url (newegg_key_terms l) = url l"
  by (simp add: newegg_key_terms_def split: option.splits)

lemma newegg_key_terms_value:
  "key_terms (specs l) = [] \<Longrightarrow>
     key_terms (specs (newegg_key_terms l)) = (case title l of None \<Rightarrow> [] | Some t \<Rightarrow> title_terms t)"
  by (simp add: newegg_key_terms_def title_terms_empty split: option.splits)

lemma newegg_returns_keeps:
  "condition (newegg_returns l) = condition l
   \<and> title (newegg_returns l) = title l \<and> url (newegg_returns l) = url l
   \<and> specs (newegg_returns l) = specs l"
  by (simp add: newegg_returns_def)

lemmas newegg_keeps =
  newegg_returns_keeps newegg_key_terms_keeps newegg_brand_keeps newegg_price_keeps

lemma parseItem_steps:
  assumes "parseItem pf now el i = Inr l"
  obtains l1 where "newegg_title_url el (newegg_empty now i) = Inr l1"
    and "l = newegg_returns (newegg_key_terms (newegg_brand el (newegg_price pf el l1)))"
  using assms by (auto simp: parseItem_def split: sum.splits)

lemma parseItem_condition:
  assumes "parseItem pf now el i = Inr l"
  shows "condition l = CNew"
proof -
  from assms obtain l1 where l1: "newegg_title_url el (newegg_empty now i) = Inr l1"
    and l: "l = newegg_returns (newegg_key_terms (newegg_brand el (newegg_price pf el l1)))"
    by (rule parseItem_steps)
  have "condition l1 = CNew"
    using newegg_title_url_keeps [OF l1] by (simp add: newegg_empty_def)
  then show ?thesis by (simp add: l newegg_keeps)
qed

lemma parseItem_returns:
  assumes "parseItem pf now el i = Inr l"
  shows "returns l = \<lparr> available = Some True, window_days = Some 30, unknown = True \<rparr>"
proof -
  from assms obtain l1 where l1: "newegg_title_url el (newegg_empty now i) = Inr l1"
    and l: "l = newegg_returns (newegg_key_terms (newegg_brand el (newegg_price pf el l1)))"
    by (rule parseItem_steps)
  have "returns l1 = \<lparr> available = None, window_days = None, unknown = True \<rparr>"
    using newegg_title_url_keeps [OF l1] by (simp add: newegg_empty_def)
  then show ?thesis by (simp add: l newegg_returns_def newegg_keeps)
qed

lemma parseItem_key_terms:
  assumes "parseItem pf now el i = Inr l"
  shows "key_terms (specs l) = (case title l of None \<Rightarrow> [] | Some t \<Rightarrow> title_terms t)"
proof -
  from assms obtain l1 where l1: "newegg_title_url el (newegg_empty now i) = Inr l1"
    and l: "l = newegg_returns (newegg_key_terms (newegg_brand el (newegg_price pf el l1)))"
    by (rule parseItem_steps)
  let ?l3 = "newegg_brand el (newegg_price pf el l1)"
  have "key_terms (specs l1) = []"
    using newegg_title_url_keeps [OF l1] by (simp add: newegg_empty_def)
  then have "key_terms (specs ?l3) = []" by (simp add: newegg_keeps)
  then have "key_terms (specs (newegg_key_terms ?l3))
             = (case title ?l3 of None \<Rightarrow> [] | Some t \<Rightarrow> title_terms t)"
    by (rule newegg_key_terms_value)
  then show ?thesis by (simp add: l newegg_keeps)
qed

lemma scrape_members:
  assumes "l \<in> set (scrape pf clock doc)"
  shows "\<exists>i el. parseItem pf (clock i) el i = Inr l \<and> truthy (title l) \<and> truthy (url l)"
proof -
  from assms
  have "l \<in> set (concat (map (scrape_item pf clock) (enumerate 0 (newegg_items doc))))"
    unfolding scrape_def by (rule in_set_takeD)
  then obtain p where "l \<in> set (scrape_item pf clock p)" by auto
  then show ?thesis by (auto simp: scrape_item_def split: sum.splits if_splits)
qed

lemma newegg_listing_cases:
  assumes "parseItem pf now el i = Inr l \<or> l \<in> set (scrape pf clock doc)"
  obtains now' el' i' where "parseItem pf now' el' i' = Inr l"
  using assms scrape_members by blast

lemma scrape_length: "length (scrape pf clock doc) \<le> 20"
  by (simp add: scrape_def)

lemma scrapeResults_length: "length (scrapeResults pf clock doc) \<le> 20"
proof -
  have "length (scrapeResults pf clock doc)
        \<le> length (enumerate 0 (take 20 (first_listing_elements doc listingSelectors)))"
    unfolding scrapeResults_def by (rule order_trans [OF length_filter_le]) simp
  then show ?thesis by simp
qed

lemma scrapeResults_members:
  "l \<in> set (scrapeResults pf clock doc) \<Longrightarrow> truthy (title l) \<and> truthy (url l)"
  by (simp add: scrapeResults_def)


section \<open>Failed calls\<close>

lemma fetch_json_fails: "http_call_fails out \<Longrightarrow> \<exists>e. fetch_json what out = Inl e"
  by (cases out)
     (auto simp: http_call_fails_def fetch_json_def response_ok_def split: json_body.splits)

lemma fetch_json_ok:
  "response_ok st \<Longrightarrow> fetch_json what (Response st (BodyValue (Some xs))) = Inr xs"
  by (simp add: fetch_json_def or_empty_def)

lemma newegg_try_fails: "newegg_call_fails out \<Longrightarrow> \<exists>e. newegg_try out = Inl e"
  by (cases out)
     (auto simp: newegg_call_fails_def newegg_try_def truthy_def
           split: scrape_reply.splits option.splits)

lemma newegg_try_ok: "\<not> truthy err \<Longrightarrow> newegg_try (Answered (Reply err (Some xs))) = Inr xs"
  by (auto simp: newegg_try_def truthy_def or_empty_def split: option.splits)

lemma fetchEbay_failed: "http_call_fails (fetch_ebay env q) \<Longrightarrow> fetchEbayCandidates env q = []"
  using fetch_json_fails [of "fetch_ebay env q" "''eBay API error: ''"]
  by (auto simp: fetchEbayCandidates_def)

lemma fetchNewegg_failed:
  "newegg_call_fails (scrape_newegg env q) \<Longrightarrow> fetchNeweggCandidates env q = []"
  using newegg_try_fails [of "scrape_newegg env q"]
  by (auto simp: fetchNeweggCandidates_def)

lemma rank_fallback:
  assumes "http_call_fails (fetch_rank env ds ctx cands)"
  shows "rankCandidates env ds ctx cands = map fallback_result (take 10 (sort_key price_key cands))"
  using fetch_json_fails [OF assms, of "''Ranking server error: ''"]
  by (auto simp: rankCandidates_def)

lemma fallback_sorted: "sorted (map price_key (take 10 (sort_key price_key cands)))"
proof -
  have "sorted (take 10 (map price_key (sort_key price_key cands)))"
    by (rule sorted_wrt_take) simp
  then show ?thesis by (simp add: take_map)
qed

text \<open>A body that parses but has no \<^verbatim>\<open>ranked\<close> array is not a failure: the ranking is empty.\<close>

lemma rank_missing_field:
  "fetch_rank env ds ctx cands = Response 200 (BodyValue None) \<Longrightarrow>
     rankCandidates env ds ctx cands = []"
  by (simp add: rankCandidates_def fetch_json_def response_ok_def or_empty_def)


section \<open>The product page cascade\<close>

lemma extract_page_jsonld:
  assumes "extractJsonLd pf pint (ld_scripts doc) = Some d"
  shows "extract_page pf pint ts doc
         = (assign_jsonld d (empty_context ts doc))\<lparr> ctx_type := ''product'' \<rparr>"
  using assms by (simp add: extract_page_def)

lemma empty_context_cong:
  assumes "location_href doc' = location_href doc" and "hostname doc' = hostname doc"
  shows "empty_context ts doc' = empty_context ts doc"
  using assms by (simp add: empty_context_def)

lemma extract_page_meta:
  assumes "extractJsonLd pf pint (ld_scripts doc) = None"
    and "truthy (p_title (extractMetaTags pf doc))"
    and "\<not> truthy (p_title (extractFromDom pf doc))"
    and "num_or_null (p_price (extractFromDom pf doc)) = None"
  shows "extract_page pf pint ts doc
         = (let c = assign_meta (extractMetaTags pf doc) (empty_context ts doc)
            in c\<lparr> ctx_keywords := Some (generateKeywords c) \<rparr>)"
  using assms by (simp add: extract_page_def Let_def)

section \<open>The model on the sample pages\<close>

lemma char_eq_char_of: "c = char_of n \<longleftrightarrow> take_bit 8 n = of_char c"
  using char_of_eq_iff [of n c] by auto

lemmas char_eval =
  code_def is_ws_def is_digit_def is_word_def is_upper_def lower_char_def toLowerCase_def
  char_of_eq_iff char_eq_char_of

lemma dec_small: "dec 0 = ''0''" "dec (Suc 0) = ''1''"
  by (simp_all add: dec.simps)

lemma sample_title_link:
  "querySelector sample_card ''.item-title, a.item-title, a[title]''
   = Some (link_node '' Samsung SSD 990 PRO SSD '' ''https://www.newegg.com/p/N82E16820147860'')"
  by (simp add: sample_card_def)

lemma sample_trim: "trim '' Samsung SSD 990 PRO SSD '' = ''Samsung SSD 990 PRO SSD''"
  by (simp add: trim_def char_eval)

lemma sample_item_id:
  "match_item_id ''https://www.newegg.com/p/N82E16820147860'' = Some ''N82E16820147860''"
  by (simp add: Let_def)

lemma sample_title_url:
  "newegg_title_url sample_card l
   = Inr (l\<lparr> title := Some ''Samsung SSD 990 PRO SSD'',
              url := Some ''https://www.newegg.com/p/N82E16820147860'',
              lid := ''newegg-N82E16820147860'' \<rparr>)"
  by (simp add: newegg_title_url_def sample_title_link link_node_def sample_trim or_else_def
      truthy_def sample_item_id Let_def)

lemma sample_price:
  "newegg_price sample_parseFloat sample_card l = set_price_value (Some 129.99) l"
  by (simp add: newegg_price_def sample_card_def text_node_def char_eval sample_parseFloat_def)

lemma sample_no_brand: "querySelector sample_card ''.item-brand img, [class*=\"brand\"]'' = None"
  by (simp add: sample_card_def)

lemma sample_words:
  "split_ws ''Samsung SSD 990 PRO SSD'' = [''Samsung'', ''SSD'', ''990'', ''PRO'', ''SSD'']"
  by (simp add: split_ws_def char_eval)

lemma sample_terms:
  "title_terms ''Samsung SSD 990 PRO SSD'' = [''samsung'', ''ssd'', ''990'', ''pro'', ''ssd'']"
  by (simp add: title_terms_def split_ws_def blank_punct_def char_eval)

lemma parseItem_sample: "parseItem sample_parseFloat now sample_card i = Inr sample_listing"
  by (simp add: parseItem_def sample_title_url sample_price newegg_brand_def sample_no_brand
      newegg_key_terms_def newegg_returns_def set_price_value_def newegg_empty_def truthy_def
      sample_words sample_terms sample_listing_def)

lemma scrape_item_sample: "scrape_item sample_parseFloat clock (i, sample_card) = [sample_listing]"
  by (simp add: scrape_item_def parseItem_sample) (simp add: sample_listing_def truthy_def)

text \<open>The card without a title link parses to a listing with an empty title and is dropped.\<close>

lemma scrape_item_untitled: "scrape_item pf clock (i, untitled_card) = []"
proof -
  have "newegg_title_url untitled_card (newegg_empty (clock i) i) = Inr (newegg_empty (clock i) i)"
    by (simp add: newegg_title_url_def untitled_card_def)
  then have "\<exists>l. parseItem pf (clock i) untitled_card i = Inr l \<and> title l = Some []"
    by (simp add: parseItem_def newegg_keeps) (simp add: newegg_empty_def)
  then show ?thesis by (auto simp: scrape_item_def truthy_def)
qed

text \<open>The card whose title is not a link makes \<^verbatim>\<open>parseItem\<close> throw and is skipped.\<close>

lemma parseItem_heading: "parseItem pf now heading_card i = Inl TypeError"
  by (simp add: parseItem_def newegg_title_url_def heading_card_def text_node_def)

lemma scrape_item_heading: "scrape_item pf clock (i, heading_card) = []"
  by (simp add: scrape_item_def parseItem_heading)

lemma scrape_sample: "scrape sample_parseFloat zero_clock sample_page = [sample_listing]"
proof -
  have "newegg_items sample_page = [untitled_card, sample_card, heading_card]"
    by (simp add: newegg_items_def sample_page_def)
  then show ?thesis
    by (simp add: scrape_def enumerate_eq_zip upt_rec scrape_item_untitled scrape_item_sample
        scrape_item_heading)
qed

lemma scrape_items_sample:
  "\<forall>p \<in> set ps. snd p = sample_card \<Longrightarrow>
     concat (map (scrape_item sample_parseFloat clock) ps) = replicate (length ps) sample_listing"
proof (induction ps)
  case Nil
  then show ?case by simp
next
  case (Cons p ps)
  then have "p = (fst p, sample_card)" by (cases p) simp
  then have "scrape_item sample_parseFloat clock p = [sample_listing]"
    using scrape_item_sample [of clock "fst p"] by simp
  with Cons show ?case by simp
qed

lemma scrape_crowded: "scrape sample_parseFloat zero_clock crowded_page = replicate 20 sample_listing"
proof -
  have i: "newegg_items crowded_page = replicate 25 sample_card"
    by (simp add: newegg_items_def crowded_page_def)
  have "\<forall>p \<in> set (enumerate 0 (replicate 25 sample_card)). snd p = sample_card"
    by (auto simp: enumerate_eq_zip dest: set_zip_rightD)
  then have "concat (map (scrape_item sample_parseFloat zero_clock)
                      (enumerate 0 (replicate 25 sample_card)))
             = replicate 25 sample_listing"
    using scrape_items_sample [of "enumerate 0 (replicate 25 sample_card)" zero_clock] by simp
  then show ?thesis by (simp add: scrape_def i)
qed

lemma sample_source: "search_detectSource ''www.newegg.com'' = ''newegg''"
  by (simp add: search_detectSource_def char_eval)

lemma parseListingElement_sample:
  "parseListingElement sample_parseFloat ''www.newegg.com'' 0 sample_card (Suc 0)
   = sample_generic_listing"
proof -
  have t: "generic_title_url sample_card l
           = l\<lparr> title := Some ''Samsung SSD 990 PRO SSD'',
                url := Some ''https://www.newegg.com/p/N82E16820147860'' \<rparr>" for l
    by (simp add: generic_title_url_def sample_card_def link_node_def sample_trim or_else_def
        truthy_def)
  have a: "match_amount ''$129.99'' = Some ''129.99''"
    by (simp add: match_amount_def after_point_def is_dc_def char_eval)
  have p: "generic_price sample_parseFloat sample_card l = set_price_value (Some 129.99) l" for l
    by (simp add: generic_price_def sample_card_def text_node_def a strip_commas_def
        sample_parseFloat_def)
  have u: "listing_condition ''Used'' CUnknown = CUsed"
    by (simp add: listing_condition_def char_eval)
  have c: "generic_condition sample_card l
           = l\<lparr> condition := listing_condition ''Used'' (condition l) \<rparr>" for l
    by (simp add: generic_condition_def sample_card_def text_node_def)
  show ?thesis
    by (simp add: parseListingElement_def t p c)
       (simp add: generic_empty_def set_price_value_def u sample_source dec_small
          sample_generic_listing_def)
qed

lemma parseListingElement_no_link:
  "querySelector el ''a[href*=\"http\"], a.item-title, a[class*=\"product\"]'' = None \<Longrightarrow>
     title (parseListingElement pf host now el i) = Some []"
proof -
  assume n: "querySelector el ''a[href*=\"http\"], a.item-title, a[class*=\"product\"]'' = None"
  have "title (generic_condition el l) = title l" for l
    by (simp add: generic_condition_def split: option.splits)
  moreover have "title (generic_price pf el l) = title l" for l
    by (simp add: generic_price_def set_price_value_keeps split: option.splits)
  moreover have "generic_title_url el l = l" for l
    using n by (simp add: generic_title_url_def)
  ultimately show ?thesis by (simp add: parseListingElement_def generic_empty_def)
qed

lemma scrapeResults_sample:
  "scrapeResults sample_parseFloat zero_clock sample_page = [sample_generic_listing]"
proof -
  have e: "first_listing_elements sample_page listingSelectors
           = [untitled_card, sample_card, heading_card]"
    by (simp add: listingSelectors_def sample_page_def)
  have u: "title (parseListingElement sample_parseFloat ''www.newegg.com'' 0 untitled_card i)
           = Some []" for i
    by (rule parseListingElement_no_link) (simp add: untitled_card_def)
  have h: "title (parseListingElement sample_parseFloat ''www.newegg.com'' 0 heading_card i)
           = Some []" for i
    by (rule parseListingElement_no_link) (simp add: heading_card_def)
  have s: "truthy (title sample_generic_listing) \<and> truthy (url sample_generic_listing)"
    by (simp add: sample_generic_listing_def truthy_def)
  have host: "hostname sample_page = ''www.newegg.com''"
    by (simp add: sample_page_def)
  show ?thesis
    by (simp add: scrapeResults_def e enumerate_eq_zip upt_rec zero_clock_def host
        parseListingElement_sample u h s truthy_empty)
qed

lemma sample_sorted:
  "sort_key price_key sample_candidates = [priced ''a'' 550, priced ''c'' 580, priced ''b'' 600]"
  by (simp add: sample_candidates_def price_key_def priced_def)

text \<open>The product page: its JSON-LD product, its meta tags, and the page without JSON-LD.\<close>

lemma sample_jsonld:
  "extractJsonLd sample_parseFloat sample_parseInt (ld_scripts sample_product_page)
   = Some (no_fields\<lparr> p_title := Some ''Widget'' \<rparr>)"
  by (simp add: sample_product_page_def script_items_def is_product_type_def
      parseJsonLdProduct_def jsonld_offers_def jsonld_rating_def jsonld_brand_def jsonld_image_def
      sample_product_def no_fields_def)

lemma sample_meta_content:
  "getMetaContent sample_product_page ''og:title'' = Some ''Acme Widget''"
  "getMetaContent sample_product_page ''og:image'' = None"
  "getMetaContent sample_product_page ''og:description'' = None"
  "getMetaContent sample_product_page ''product:price:amount'' = Some ''129.99''"
  "getMetaContent sample_product_page ''product:price:currency'' = None"
  "getMetaContent sample_product_page ''product:brand'' = Some ''Acme''"
  by (simp_all add: getMetaContent_def sample_product_page_def sample_meta_def meta_node_def
      or_else_def truthy_def)

lemma sample_metadata:
  "extractMetaTags sample_parseFloat sample_product_page
   = no_fields\<lparr> p_title := Some ''Acme Widget'', p_price := Some 129.99,
                p_currency := Some ''USD'', p_brand := Some (BrandString ''Acme'') \<rparr>"
  by (simp add: extractMetaTags_def sample_meta_content parse_opt_def num_or_null_def
      sample_parseFloat_def or_else_def truthy_def no_fields_def)

section \<open>Rounding error of a sum of weights\<close>



lemma u_bounds: "0 < unit_roundoff" "unit_roundoff \<le> 1 / 1000" "unit_roundoff < 1"
  by (simp_all add: unit_roundoff_def)








lemma pow_le_one: "(1 - unit_roundoff) ^ n \<le> 1"
  using u_bounds by (simp add: power_le_one)















section \<open>Condition classification\<close>

text \<open>
  In \<^verbatim>\<open>parseCondition\<close> the test for \<^verbatim>\<open>renewed\<close> never decides: a text containing it
  contains \<^verbatim>\<open>new\<close>, which is tested first. A text is classified as refurbished only
  through \<^verbatim>\<open>refurb\<close>.
\<close>

lemma parseCondition_renewed:
  "t \<noteq> [] \<Longrightarrow> includes_str (toLowerCase t) ''renewed'' \<Longrightarrow> parseCondition (Some t) = CNew"
  by (simp add: parseCondition_def renewed_includes_new)

lemma parseCondition_refurb:
  "parseCondition text = CRefurb \<Longrightarrow> \<exists>t. text = Some t \<and> includes_str (toLowerCase t) ''refurb''"
  by (auto simp: parseCondition_def Let_def renewed_includes_new split: option.splits if_splits)

text \<open>
  C5. Condition text is classified by substring match: \<^verbatim>\<open>new\<close> gives new, \<^verbatim>\<open>refurb\<close> or
  \<^verbatim>\<open>renewed\<close> gives refurb, \<^verbatim>\<open>used\<close> or \<^verbatim>\<open>pre-owned\<close> gives used, anything else
  unknown. The code does not do this for \<^verbatim>\<open>renewed\<close>: \<^verbatim>\<open>parseCondition("Renewed")\<close> is new,
  although the function has a branch that returns refurb for it. The condition block
  of \<^verbatim>\<open>parseListingElement\<close> has no test for \<^verbatim>\<open>renewed\<close> or \<^verbatim>\<open>pre-owned\<close>, so there
  \<^verbatim>\<open>Renewed\<close> is new as well and \<^verbatim>\<open>Pre-owned\<close> stays unknown.
\<close>

theorem parseCondition_renewed_is_new:
  "parseCondition (Some ''Renewed'') = CNew
   \<and> listing_condition ''Renewed'' CUnknown = CNew
   \<and> listing_condition ''Pre-owned'' CUnknown = CUnknown"
  by (simp add: parseCondition_def listing_condition_def char_eval)


section \<open>Newegg listings\<close>

text \<open>
  C9. Every Listing produced by the Newegg search parser, by \<^verbatim>\<open>parseItem\<close> or in the
  result of \<^verbatim>\<open>scrape\<close>, has \<^verbatim>\<open>returns.available = true\<close> and
  \<^verbatim>\<open>returns.window_days = 30\<close>, whatever the page shows, while \<^verbatim>\<open>returns.unknown\<close> is
  still \<^verbatim>\<open>true\<close>.
\<close>

theorem newegg_returns_hardcoded:
  assumes "parseItem pf now el i = Inr l \<or> l \<in> set (scrape pf clock doc)"
  shows "available (returns l) = Some True \<and> window_days (returns l) = Some 30
         \<and> unknown (returns l) = True"
proof -
  from assms obtain now' el' i' where "parseItem pf now' el' i' = Inr l"
    by (rule newegg_listing_cases)
  then have "returns l = \<lparr> available = Some True, window_days = Some 30, unknown = True \<rparr>"
    by (rule parseItem_returns)
  then show ?thesis by simp
qed

theorem newegg_returns_hardcoded_witness:
  "parseItem sample_parseFloat 0 sample_card 0 = Inr sample_listing
   \<and> available (returns sample_listing) = Some True
   \<and> window_days (returns sample_listing) = Some 30
   \<and> unknown (returns sample_listing) = True"
proof -
  have h: "parseItem sample_parseFloat 0 sample_card 0 = Inr sample_listing"
    by (rule parseItem_sample)
  from newegg_returns_hardcoded [OF disjI1 [OF h]] h show ?thesis by simp
qed

text \<open>
  C10. Every Listing produced by the Newegg search parser has condition \<^verbatim>\<open>new\<close>,
  whatever condition text the result card carries: the parser never reads it.
\<close>

theorem newegg_condition_always_new:
  assumes "parseItem pf now el i = Inr l \<or> l \<in> set (scrape pf clock doc)"
  shows "condition l = CNew"
proof -
  from assms obtain now' el' i' where "parseItem pf now' el' i' = Inr l"
    by (rule newegg_listing_cases)
  then show ?thesis by (rule parseItem_condition)
qed

text \<open>The sample card is labelled as used; the generic parser reads the label, this one does not.\<close>

theorem newegg_condition_always_new_witness:
  "querySelector sample_card ''[class*=\"condition\"]'' = Some (text_node ''Used'')
   \<and> sample_listing \<in> set (scrape sample_parseFloat zero_clock sample_page)
   \<and> condition sample_listing = CNew"
proof -
  have q: "querySelector sample_card ''[class*=\"condition\"]'' = Some (text_node ''Used'')"
    by (simp add: sample_card_def)
  have h: "sample_listing \<in> set (scrape sample_parseFloat zero_clock sample_page)"
    by (simp add: scrape_sample)
  from newegg_condition_always_new [OF disjI2 [OF h]] q h show ?thesis by simp
qed

text \<open>
  C7. For every Listing produced by extraction, \<^verbatim>\<open>specs.key_terms\<close> is an ordered
  sequence of lowercase tokens in first-seen order with duplicates removed. The code
  removes nothing: a word that occurs twice in the title occurs twice in the terms.
\<close>

theorem key_terms_duplicates_counterexample:
  "map (key_terms \<circ> specs) (scrape sample_parseFloat zero_clock sample_page)
     = [[''samsung'', ''ssd'', ''990'', ''pro'', ''ssd'']]
   \<and> \<not> list_all (distinct \<circ> key_terms \<circ> specs) (scrape sample_parseFloat zero_clock sample_page)"
  by (simp add: scrape_sample sample_listing_def)

text \<open>
  C7, as the code has it. The key terms of a Newegg Listing are computed from its
  title: at most ten tokens, each longer than two characters and made of lower-case
  letters, digits and underscores, in the order in which they stand in the lower-cased
  title. Duplicates are kept.
\<close>

theorem key_terms_title_order:
  assumes "parseItem pf now el i = Inr l \<or> l \<in> set (scrape pf clock doc)"
  shows "key_terms (specs l) = (case title l of None \<Rightarrow> [] | Some t \<Rightarrow> title_terms t)
       \<and> length (key_terms (specs l)) \<le> 10
       \<and> (\<forall>w \<in> set (key_terms (specs l)).
             2 < length w \<and> (\<forall>c \<in> set w. is_word c \<and> \<not> is_upper c))
       \<and> (\<forall>t. title l = Some t \<longrightarrow> subseq (concat (key_terms (specs l))) (toLowerCase t))"
proof -
  from assms obtain now' el' i' where "parseItem pf now' el' i' = Inr l"
    by (rule newegg_listing_cases)
  then have k: "key_terms (specs l) = (case title l of None \<Rightarrow> [] | Some t \<Rightarrow> title_terms t)"
    by (rule parseItem_key_terms)
  show ?thesis
  proof (cases "title l")
    case None
    with k show ?thesis by simp
  next
    case (Some t)
    with k have "key_terms (specs l) = title_terms t" by simp
    with Some k show ?thesis
      using title_terms_length [of t] title_terms_tokens [of _ t] title_terms_subseq [of t]
      by auto
  qed
qed

theorem key_terms_title_order_witness:
  "parseItem sample_parseFloat 0 sample_card 0 = Inr sample_listing
   \<and> key_terms (specs sample_listing) = title_terms ''Samsung SSD 990 PRO SSD''
   \<and> length (key_terms (specs sample_listing)) \<le> 10
   \<and> subseq (concat (key_terms (specs sample_listing))) (toLowerCase ''Samsung SSD 990 PRO SSD'')"
proof -
  have h: "parseItem sample_parseFloat 0 sample_card 0 = Inr sample_listing"
    by (rule parseItem_sample)
  have t: "title sample_listing = Some ''Samsung SSD 990 PRO SSD''"
    by (simp add: sample_listing_def)
  note c = key_terms_title_order [OF disjI1 [OF h]]
  from c t have k: "key_terms (specs sample_listing) = title_terms ''Samsung SSD 990 PRO SSD''"
    by simp
  from c have n: "length (key_terms (specs sample_listing)) \<le> 10" by blast
  from c t have s: "subseq (concat (key_terms (specs sample_listing)))
                      (toLowerCase ''Samsung SSD 990 PRO SSD'')" by blast
  from h k n s show ?thesis by blast
qed


section \<open>Scraping search results\<close>

text \<open>
  C4. For every page, the Newegg \<^verbatim>\<open>scrape\<close> and the generic \<^verbatim>\<open>scrapeResults\<close> return at
  most 20 Listings, and every returned Listing has a non-empty title and a non-empty
  url. Both are total: an element without title or url, and in \<^verbatim>\<open>scrape\<close> an element
  whose parse throws, is left out of the result.
\<close>

theorem scrape_postcondition:
  "length (scrape pf clock doc) \<le> 20
   \<and> length (scrapeResults pf clock doc) \<le> 20
   \<and> (\<forall>l \<in> set (scrape pf clock doc) \<union> set (scrapeResults pf clock doc).
         \<exists>t u. title l = Some t \<and> t \<noteq> [] \<and> url l = Some u \<and> u \<noteq> [])"
proof -
  have "\<exists>t u. title l = Some t \<and> t \<noteq> [] \<and> url l = Some u \<and> u \<noteq> []"
    if "l \<in> set (scrape pf clock doc) \<union> set (scrapeResults pf clock doc)" for l
  proof -
    from that have "truthy (title l) \<and> truthy (url l)"
      using scrape_members [of l pf clock doc] scrapeResults_members [of l pf clock doc] by blast
    then show ?thesis by (auto simp: truthy_iff)
  qed
  then show ?thesis using scrape_length scrapeResults_length by blast
qed

text \<open>
  The sample page has three cards. Of these only the one with a title link is returned,
  by either scraper.
\<close>

theorem scrape_postcondition_witness:
  "length (newegg_items crowded_page) = 25
   \<and> length (scrape sample_parseFloat zero_clock crowded_page) = 20
   \<and> newegg_items sample_page = [untitled_card, sample_card, heading_card]
   \<and> scrape sample_parseFloat zero_clock sample_page = [sample_listing]
   \<and> scrapeResults sample_parseFloat zero_clock sample_page = [sample_generic_listing]
   \<and> (\<exists>t u. title sample_listing = Some t \<and> t \<noteq> [] \<and> url sample_listing = Some u \<and> u \<noteq> [])
   \<and> (\<exists>t u. title sample_generic_listing = Some t \<and> t \<noteq> []
             \<and> url sample_generic_listing = Some u \<and> u \<noteq> [])"
proof -
  have i: "newegg_items sample_page = [untitled_card, sample_card, heading_card]"
    by (simp add: newegg_items_def sample_page_def)
  note p = scrape_postcondition [of sample_parseFloat zero_clock sample_page]
  from p have "\<forall>l \<in> {sample_listing, sample_generic_listing}.
         \<exists>t u. title l = Some t \<and> t \<noteq> [] \<and> url l = Some u \<and> u \<noteq> []"
    by (simp add: scrape_sample scrapeResults_sample)
  moreover have "length (newegg_items crowded_page) = 25"
    by (simp add: newegg_items_def crowded_page_def)
  ultimately show ?thesis
    using i by (simp add: scrape_sample scrapeResults_sample scrape_crowded)
qed


section \<open>Gathering and ranking\<close>

text \<open>
  C1. For every candidate list, when the call to the ranking authority fails (the
  fetch rejects, the status is not 2xx, or the body is not a JSON value with
  properties), \<^verbatim>\<open>rankCandidates\<close> returns min(10, count) results: the first ten
  candidates in ascending order of price, each with \<^verbatim>\<open>score_total\<close> 0.5, an empty
  breakdown and the one bullet saying that ranking was unavailable and the list is
  sorted by price. \<open>rankCandidates\<close> is total, so this fallback raises nothing.
\<close>

theorem rankCandidates_fallback:
  assumes "http_call_fails (fetch_rank env ds ctx cands)"
  shows "length (rankCandidates env ds ctx cands) = min 10 (length cands)
       \<and> map listing (rankCandidates env ds ctx cands) = take 10 (sort_key price_key cands)
       \<and> sorted (map (\<lambda>r. price_key (listing r)) (rankCandidates env ds ctx cands))
       \<and> (\<forall>r \<in> set (rankCandidates env ds ctx cands).
             score_total r = 0.5 \<and> score_breakdown r = []
             \<and> explanation_bullets r = [''Ranking unavailable - sorted by price''])"
proof -
  let ?s = "take 10 (sort_key price_key cands)"
  have r: "rankCandidates env ds ctx cands = map fallback_result ?s"
    using assms by (rule rank_fallback)
  have l: "map listing (map fallback_result ?s) = ?s"
    by (simp add: fallback_result_def comp_def)
  have k: "(\<lambda>r. price_key (listing r)) \<circ> fallback_result = price_key"
    by (rule ext) (simp add: fallback_result_def)
  have s: "sorted (map (\<lambda>r. price_key (listing r)) (map fallback_result ?s))"
    unfolding map_map k by (rule fallback_sorted)
  have len: "length (map fallback_result ?s) = min 10 (length cands)"
    by (simp add: min.commute)
  have each: "\<forall>r \<in> set (map fallback_result ?s).
             score_total r = 0.5 \<and> score_breakdown r = []
             \<and> explanation_bullets r = [''Ranking unavailable - sorted by price'']"
    by (simp add: fallback_result_def)
  from len l s each show ?thesis unfolding r by blast
qed

theorem rankCandidates_fallback_witness:
  "http_call_fails (fetch_rank rank_down sample_spec () sample_candidates)
   \<and> length (rankCandidates rank_down sample_spec () sample_candidates) = 3
   \<and> map listing (rankCandidates rank_down sample_spec () sample_candidates)
       = [priced ''a'' 550, priced ''c'' 580, priced ''b'' 600]
   \<and> map (\<lambda>r. price_key (listing r)) (rankCandidates rank_down sample_spec () sample_candidates)
       = [550, 580, 600]
   \<and> length twelve_candidates = 12
   \<and> length (rankCandidates rank_down sample_spec () twelve_candidates) = 10"
proof -
  have h12: "http_call_fails (fetch_rank rank_down sample_spec () twelve_candidates)"
    by (simp add: rank_down_def http_call_fails_def)
  have n12: "length twelve_candidates = 12" by (simp add: twelve_candidates_def)
  from rankCandidates_fallback [OF h12] n12
  have l12: "length (rankCandidates rank_down sample_spec () twelve_candidates) = 10" by simp
  have h: "http_call_fails (fetch_rank rank_down sample_spec () sample_candidates)"
    by (simp add: rank_down_def http_call_fails_def)
  have n: "length sample_candidates = 3" by (simp add: sample_candidates_def)
  note f = rankCandidates_fallback [OF h]
  from f have m: "map listing (rankCandidates rank_down sample_spec () sample_candidates)
       = [priced ''a'' 550, priced ''c'' 580, priced ''b'' 600]"
    by (simp add: sample_sorted)
  have "map (\<lambda>r. price_key (listing r)) (rankCandidates rank_down sample_spec () sample_candidates)
        = map price_key (map listing (rankCandidates rank_down sample_spec () sample_candidates))"
    by (simp add: comp_def)
  also have "\<dots> = [550, 580, 600]"
    unfolding m by (simp add: price_key_def priced_def)
  finally show ?thesis using h f m n n12 l12 by simp
qed

text \<open>
  C2. For every query, if one source succeeds with \<open>n\<close> listings and the other source
  fails, \<^verbatim>\<open>gatherCandidates\<close> returns exactly the successful source's listings in their
  original order. \<open>gatherCandidates\<close> is total: no exception escapes it.
\<close>

theorem gatherCandidates_partial_failure:
  "(fetch_ebay env q = Response st (BodyValue (Some xs)) \<and> response_ok st
      \<and> newegg_call_fails (scrape_newegg env q)
    \<longrightarrow> gatherCandidates env q = xs)
 \<and> (http_call_fails (fetch_ebay env q)
      \<and> scrape_newegg env q = Answered (Reply err (Some ys)) \<and> \<not> truthy err
    \<longrightarrow> gatherCandidates env q = ys)"
proof (intro conjI impI)
  assume a: "fetch_ebay env q = Response st (BodyValue (Some xs)) \<and> response_ok st
      \<and> newegg_call_fails (scrape_newegg env q)"
  then have "fetchEbayCandidates env q = xs"
    by (simp add: fetchEbayCandidates_def fetch_json_ok)
  moreover from a have "fetchNeweggCandidates env q = []"
    by (simp add: fetchNewegg_failed)
  ultimately show "gatherCandidates env q = xs" by (simp add: gatherCandidates_def)
next
  assume a: "http_call_fails (fetch_ebay env q)
      \<and> scrape_newegg env q = Answered (Reply err (Some ys)) \<and> \<not> truthy err"
  then have "fetchEbayCandidates env q = []" by (simp add: fetchEbay_failed)
  moreover from a have "fetchNeweggCandidates env q = ys"
    by (simp add: fetchNeweggCandidates_def newegg_try_ok)
  ultimately show "gatherCandidates env q = ys" by (simp add: gatherCandidates_def)
qed

theorem gatherCandidates_partial_failure_witness:
  "fetch_ebay rank_down ''rtx 4070'' = Response 200 (BodyValue (Some sample_candidates))
   \<and> response_ok 200
   \<and> newegg_call_fails (scrape_newegg rank_down ''rtx 4070'')
   \<and> gatherCandidates rank_down ''rtx 4070'' = sample_candidates
   \<and> http_call_fails (fetch_ebay ebay_down ''rtx 4070'')
   \<and> scrape_newegg ebay_down ''rtx 4070'' = Answered (Reply None (Some [sample_listing]))
   \<and> \<not> truthy None
   \<and> gatherCandidates ebay_down ''rtx 4070'' = [sample_listing]"
proof -
  have a: "fetch_ebay rank_down ''rtx 4070'' = Response 200 (BodyValue (Some sample_candidates))
           \<and> response_ok 200 \<and> newegg_call_fails (scrape_newegg rank_down ''rtx 4070'')"
    by (simp add: rank_down_def response_ok_def newegg_call_fails_def)
  have b: "http_call_fails (fetch_ebay ebay_down ''rtx 4070'')
           \<and> scrape_newegg ebay_down ''rtx 4070'' = Answered (Reply None (Some [sample_listing]))
           \<and> \<not> truthy None"
    by (simp add: ebay_down_def http_call_fails_def truthy_def)
  from gatherCandidates_partial_failure
         [of rank_down "''rtx 4070''" 200 sample_candidates None "[]"] a
  have c: "gatherCandidates rank_down ''rtx 4070'' = sample_candidates" by blast
  from gatherCandidates_partial_failure
         [of ebay_down "''rtx 4070''" 200 "[]" None "[sample_listing]"] b
  have d: "gatherCandidates ebay_down ''rtx 4070'' = [sample_listing]" by blast
  from a b c d show ?thesis by blast
qed

text \<open>
  C8. For every query, if every source fails, aggregation returns an empty candidate
  list and the find-deals handler returns the result with the message
  \<^verbatim>\<open>No candidates found\<close> and an empty ranked list. \<open>handleFindDeals\<close> is total: it does
  not throw.
\<close>

theorem handleFindDeals_total_failure:
  assumes "http_call_fails (fetch_ebay env (query ds))"
    and "newegg_call_fails (scrape_newegg env (query ds))"
  shows "gatherCandidates env (query ds) = []
       \<and> snd (handleFindDeals env now st (ds, ctx))
           = \<lparr> ranked = [], message = Some ''No candidates found'', total_candidates = None \<rparr>"
proof -
  have g: "gatherCandidates env (query ds) = []"
    using assms by (simp add: gatherCandidates_def fetchEbay_failed fetchNewegg_failed)
  then show ?thesis by (simp add: handleFindDeals_def Let_def)
qed

theorem handleFindDeals_total_failure_witness:
  "http_call_fails (fetch_ebay all_down (query sample_spec))
   \<and> newegg_call_fails (scrape_newegg all_down (query sample_spec))
   \<and> gatherCandidates all_down (query sample_spec) = []
   \<and> snd (handleFindDeals all_down ''2024-01-01T00:00:00.000Z'' idle_state (sample_spec, ()))
       = \<lparr> ranked = [], message = Some ''No candidates found'', total_candidates = None \<rparr>"
proof -
  have a: "http_call_fails (fetch_ebay all_down (query sample_spec))"
    by (simp add: all_down_def http_call_fails_def)
  have b: "newegg_call_fails (scrape_newegg all_down (query sample_spec))"
    by (simp add: all_down_def newegg_call_fails_def truthy_def)
  from handleFindDeals_total_failure [OF a b] a b show ?thesis by blast
qed


section \<open>Product pages\<close>

text \<open>
  C6. For every product page where structured data (a JSON-LD Product) succeeds but
  leaves some field unset, document metadata is used to fill the fields structured data
  did not provide. The code does not: on the sample page the JSON-LD Product has no
  brand, the meta tags name the brand, and the extracted Context has none.
\<close>

theorem extract_page_metadata_unused_counterexample:
  "extractJsonLd sample_parseFloat sample_parseInt (ld_scripts sample_product_page)
     = Some (no_fields\<lparr> p_title := Some ''Widget'' \<rparr>)
   \<and> p_brand (no_fields\<lparr> p_title := Some ''Widget'' \<rparr>) = None
   \<and> p_brand (extractMetaTags sample_parseFloat sample_product_page) = Some (BrandString ''Acme'')
   \<and> p_brand (extract_page sample_parseFloat sample_parseInt ''2024-01-01T00:00:00.000Z''
                sample_product_page) = None"
  by (simp add: sample_jsonld sample_metadata extract_page_def assign_jsonld_def)
     (simp add: no_fields_def)

text \<open>
  C6, as the code has it. When structured data succeeds, the Context is built from it
  alone: its data fields are those of the JSON-LD Product, a field that the Product
  left unset stays unset, and the Context is the same on every page with the same
  scripts and address, whatever its meta tags and elements are. Metadata is used when
  no JSON-LD Product is found: if it then has a title, and the selectors on the page
  find neither a title nor a price, the title, brand, image, description, price and
  currency of the Context are those of the metadata.
\<close>

theorem extract_page_cascade:
  "(extractJsonLd pf pint (ld_scripts doc) = Some d \<longrightarrow>
      p_title (extract_page pf pint ts doc) = p_title d
    \<and> p_brand (extract_page pf pint ts doc) = p_brand d
    \<and> p_image (extract_page pf pint ts doc) = p_image d
    \<and> p_description (extract_page pf pint ts doc) = p_description d
    \<and> p_price (extract_page pf pint ts doc) = p_price d
    \<and> p_currency (extract_page pf pint ts doc) = p_currency d
    \<and> ctx_type (extract_page pf pint ts doc) = ''product''
    \<and> (\<forall>doc' :: document. ld_scripts doc' = ld_scripts doc \<and> location_href doc' = location_href doc
               \<and> hostname doc' = hostname doc
            \<longrightarrow> extract_page pf pint ts doc' = extract_page pf pint ts doc))
 \<and> (extractJsonLd pf pint (ld_scripts doc) = None
      \<and> truthy (p_title (extractMetaTags pf doc))
      \<and> \<not> truthy (p_title (extractFromDom pf doc))
      \<and> num_or_null (p_price (extractFromDom pf doc)) = None \<longrightarrow>
      p_title (extract_page pf pint ts doc) = p_title (extractMetaTags pf doc)
    \<and> p_brand (extract_page pf pint ts doc) = p_brand (extractMetaTags pf doc)
    \<and> p_image (extract_page pf pint ts doc) = p_image (extractMetaTags pf doc)
    \<and> p_description (extract_page pf pint ts doc) = p_description (extractMetaTags pf doc)
    \<and> p_price (extract_page pf pint ts doc) = p_price (extractMetaTags pf doc)
    \<and> p_currency (extract_page pf pint ts doc) = p_currency (extractMetaTags pf doc))"
proof (intro conjI impI)
  assume a: "extractJsonLd pf pint (ld_scripts doc) = None
      \<and> truthy (p_title (extractMetaTags pf doc))
      \<and> \<not> truthy (p_title (extractFromDom pf doc))
      \<and> num_or_null (p_price (extractFromDom pf doc)) = None"
  then have e: "extract_page pf pint ts doc
         = (let c = assign_meta (extractMetaTags pf doc) (empty_context ts doc)
            in c\<lparr> ctx_keywords := Some (generateKeywords c) \<rparr>)"
    by (simp add: extract_page_meta)
  show "p_title (extract_page pf pint ts doc) = p_title (extractMetaTags pf doc)"
    and "p_brand (extract_page pf pint ts doc) = p_brand (extractMetaTags pf doc)"
    and "p_image (extract_page pf pint ts doc) = p_image (extractMetaTags pf doc)"
    and "p_description (extract_page pf pint ts doc) = p_description (extractMetaTags pf doc)"
    and "p_price (extract_page pf pint ts doc) = p_price (extractMetaTags pf doc)"
    and "p_currency (extract_page pf pint ts doc) = p_currency (extractMetaTags pf doc)"
    unfolding e by (simp_all add: Let_def assign_meta_def)
next
  assume a: "extractJsonLd pf pint (ld_scripts doc) = Some d"
  then have e: "extract_page pf pint ts doc
         = (assign_jsonld d (empty_context ts doc))\<lparr> ctx_type := ''product'' \<rparr>"
    by (rule extract_page_jsonld)
  show "p_title (extract_page pf pint ts doc) = p_title d"
    and "p_brand (extract_page pf pint ts doc) = p_brand d"
    and "p_image (extract_page pf pint ts doc) = p_image d"
    and "p_description (extract_page pf pint ts doc) = p_description d"
    and "p_price (extract_page pf pint ts doc) = p_price d"
    and "p_currency (extract_page pf pint ts doc) = p_currency d"
    and "ctx_type (extract_page pf pint ts doc) = ''product''"
    unfolding e by (simp_all add: assign_jsonld_def)
  show "\<forall>doc' :: document. ld_scripts doc' = ld_scripts doc \<and> location_href doc' = location_href doc
               \<and> hostname doc' = hostname doc
            \<longrightarrow> extract_page pf pint ts doc' = extract_page pf pint ts doc"
  proof (intro allI impI)
    fix doc' :: document
    assume s: "ld_scripts doc' = ld_scripts doc \<and> location_href doc' = location_href doc
               \<and> hostname doc' = hostname doc"
    with a have "extractJsonLd pf pint (ld_scripts doc') = Some d" by simp
    then have e': "extract_page pf pint ts doc'
         = (assign_jsonld d (empty_context ts doc'))\<lparr> ctx_type := ''product'' \<rparr>"
      by (rule extract_page_jsonld)
    from s have "empty_context ts doc' = empty_context ts doc"
      by (intro empty_context_cong) simp_all
    then show "extract_page pf pint ts doc' = extract_page pf pint ts doc"
      unfolding e e' by simp
  qed
qed

theorem extract_page_cascade_witness:
  "extractJsonLd sample_parseFloat sample_parseInt (ld_scripts sample_product_page)
     = Some (no_fields\<lparr> p_title := Some ''Widget'' \<rparr>)
   \<and> p_title (extract_page sample_parseFloat sample_parseInt [] sample_product_page) = Some ''Widget''
   \<and> p_brand (extract_page sample_parseFloat sample_parseInt [] sample_product_page) = None
   \<and> p_price (extract_page sample_parseFloat sample_parseInt [] sample_product_page) = None
   \<and> extractJsonLd sample_parseFloat sample_parseInt (ld_scripts sample_meta_page) = None
   \<and> p_title (extract_page sample_parseFloat sample_parseInt [] sample_meta_page)
       = Some ''Acme Widget''
   \<and> p_brand (extract_page sample_parseFloat sample_parseInt [] sample_meta_page)
       = Some (BrandString ''Acme'')
   \<and> p_price (extract_page sample_parseFloat sample_parseInt [] sample_meta_page) = Some 129.99"
proof -
  note j = sample_jsonld
  have n: "extractJsonLd sample_parseFloat sample_parseInt (ld_scripts sample_meta_page) = None"
    by (simp add: sample_meta_page_def script_items_def)
  have g: "getMetaContent sample_meta_page name = getMetaContent sample_product_page name"
    for name
    by (simp add: getMetaContent_def sample_meta_page_def)
  have m: "extractMetaTags sample_parseFloat sample_meta_page
           = extractMetaTags sample_parseFloat sample_product_page"
    unfolding extractMetaTags_def g by (rule refl)
  have t: "getFirstText sample_meta_page titleSelectors = None"
    by (simp add: titleSelectors_def sample_meta_page_def sample_product_page_def sample_meta_def)
  have p: "getFirstText sample_meta_page priceSelectors = None"
    by (simp add: priceSelectors_def sample_meta_page_def sample_product_page_def sample_meta_def)
  have d: "\<not> truthy (p_title (extractFromDom sample_parseFloat sample_meta_page))
           \<and> num_or_null (p_price (extractFromDom sample_parseFloat sample_meta_page)) = None"
    by (simp add: extractFromDom_def Let_def t p parsePrice_def num_or_null_def truthy_def)
  have mt: "truthy (p_title (extractMetaTags sample_parseFloat sample_meta_page))"
    by (simp add: m sample_metadata truthy_def)
  note c1 = extract_page_cascade
    [of sample_parseFloat sample_parseInt sample_product_page
        "no_fields\<lparr> p_title := Some ''Widget'' \<rparr>" "[]", THEN conjunct1, rule_format, OF j]
  note c2 = extract_page_cascade
    [of sample_parseFloat sample_parseInt sample_meta_page _ "[]", THEN conjunct2, rule_format,
     OF conjI [OF n conjI [OF mt d]]]
  from c1
  have "p_title (extract_page sample_parseFloat sample_parseInt [] sample_product_page)
          = p_title (no_fields\<lparr> p_title := Some ''Widget'' \<rparr>)
      \<and> p_brand (extract_page sample_parseFloat sample_parseInt [] sample_product_page)
          = p_brand (no_fields\<lparr> p_title := Some ''Widget'' \<rparr>)
      \<and> p_price (extract_page sample_parseFloat sample_parseInt [] sample_product_page)
          = p_price (no_fields\<lparr> p_title := Some ''Widget'' \<rparr>)"
    by blast
  then have a: "p_title (extract_page sample_parseFloat sample_parseInt [] sample_product_page)
                     = Some ''Widget''
                 \<and> p_brand (extract_page sample_parseFloat sample_parseInt [] sample_product_page)
                     = None
                 \<and> p_price (extract_page sample_parseFloat sample_parseInt [] sample_product_page)
                     = None"
    by (simp add: no_fields_def)
  from c2 have b: "p_title (extract_page sample_parseFloat sample_parseInt [] sample_meta_page)
                     = Some ''Acme Widget''
                 \<and> p_brand (extract_page sample_parseFloat sample_parseInt [] sample_meta_page)
                     = Some (BrandString ''Acme'')
                 \<and> p_price (extract_page sample_parseFloat sample_parseInt [] sample_meta_page)
                     = Some 129.99"
    by (simp add: m sample_metadata)
  from j n a b show ?thesis by blast
qed

section \<open>Weights are valid after normalization\<close>




end
